theory Spec2Isabelle
  imports Complex_Main "HOL-Library.Sublist"
begin

section \<open>Values, errors and the platform\<close>

text \<open>
  The OAuth module (\<^verbatim>\<open>src/unnamed/part_003\<close>) is embedded function by function.
  JavaScript strings are modelled as \<^typ>\<open>string\<close> (8-bit code units), except the text
  of a mail, which is a list of UTF-16 code units (\<open>jstext\<close>); numbers that hold
  millisecond instants and second counts as \<^typ>\<open>int\<close>, a thrown exception as the
  left injection of a sum. Everything the module calls but does not define
  (\<^verbatim>\<open>JSON.parse\<close>, \<^verbatim>\<open>JSON.stringify\<close>, \<^verbatim>\<open>fetch\<close>, \<^verbatim>\<open>Math.random\<close>,
  \<^verbatim>\<open>crypto.subtle.digest\<close>, \<^verbatim>\<open>encodeURIComponent\<close>, \<^verbatim>\<open>process.env\<close>,
  \<^verbatim>\<open>window.location.origin\<close>) is a
  field of the record \<open>platform\<close>, so every theorem holds for every behaviour of these.
\<close>

datatype error = Error string | TypeError string | SyntaxError string | URIError string

record AuthTokens =
  accessToken :: string
  refreshToken :: "string option"
  expiresIn :: int
  expiresAt :: int

record UserInfo =
  user_id :: string
  email :: string
  user_name :: string
  picture :: "string option"

datatype provider = Google | Microsoft

fun provider_str :: "provider \<Rightarrow> string" where
  "provider_str Google = ''google''"
| "provider_str Microsoft = ''microsoft''"

datatype req_body = NoBody | Form "(string \<times> string) list" | Json "(string \<times> string) list"

record http_request =
  url :: string
  meth :: string
  headers :: "(string \<times> string) list"
  payload :: req_body

record http_response =
  status :: nat
  statusText :: string
  bodyText :: string

record token_response =
  access_token :: string
  refresh_token :: "string option"
  expires_in :: int

record userinfo_response =
  r_id :: string
  r_email :: string
  r_name :: string
  r_picture :: "string option"
  r_mail :: "string option"
  r_userPrincipalName :: string
  r_displayName :: string
  r_photo_value :: "string option"

type_synonym jstext = "nat list"

record platform =
  JSON_parse_tokens :: "string \<Rightarrow> error + AuthTokens option"
  JSON_parse_userinfo :: "string \<Rightarrow> error + UserInfo option"
  JSON_stringify_tokens :: "AuthTokens \<Rightarrow> string"
  JSON_stringify_userinfo :: "UserInfo \<Rightarrow> string"
  fetch :: "nat \<Rightarrow> http_request \<Rightarrow> error + http_response"
  response_json_tokens :: "string \<Rightarrow> error + token_response"
  response_json_userinfo :: "string \<Rightarrow> error + userinfo_response"
  Math_random :: "nat \<Rightarrow> real"
  SHA256 :: "string \<Rightarrow> string"
  Number_toString :: "int \<Rightarrow> string"
  Number_toString36 :: "real \<Rightarrow> string"
  URLSearchParams_toString :: "(string \<times> string) list \<Rightarrow> string"
  unescape_encodeURIComponent :: "jstext \<Rightarrow> error + string"
  GOOGLE_CLIENT_ID :: "string option"
  MICROSOFT_CLIENT_ID :: "string option"
  location_origin :: string

text \<open>
  \<open>JSON_parse_tokens\<close> is \<^verbatim>\<open>JSON.parse\<close> at the type the source gives its result
  (\<^verbatim>\<open>AuthTokens | null\<close>): \<open>Inl\<close> is a thrown \<^verbatim>\<open>SyntaxError\<close>, \<open>Inr None\<close> the value
  \<^verbatim>\<open>null\<close>. \<open>fetch n req\<close> is the outcome of the request \<open>req\<close> when \<open>n\<close> requests were
  sent before it (\<open>Inl\<close>: the promise rejected). \<open>Math_random n\<close> is the value of the
  \<open>n\<close>-th call of \<^verbatim>\<open>Math.random()\<close>. \<open>Number_toString\<close> is the decimal text of a number
  in a template string, \<open>Number_toString36\<close> is \<^verbatim>\<open>toString(36)\<close>, and
  \<open>URLSearchParams_toString\<close> the form encoding of a parameter list.
  \<open>unescape_encodeURIComponent s\<close> is \<^verbatim>\<open>unescape(encodeURIComponent(s))\<close>: the binary string
  of the UTF-8 bytes of \<open>s\<close>, or the \<^verbatim>\<open>URIError\<close> that \<^verbatim>\<open>encodeURIComponent\<close> throws (on a
  lone surrogate).

  The mutable world: \<^verbatim>\<open>localStorage\<close>, the log of requests handed to \<^verbatim>\<open>fetch\<close>, and the
  number of calls of \<^verbatim>\<open>Math.random\<close> made so far.
\<close>

type_synonym localStorage = "string \<rightharpoonup> string"

record world =
  storage :: localStorage
  sent :: "http_request list"
  rand_calls :: nat

definition truthy :: "string option \<Rightarrow> bool" where
  "truthy v = (case v of None \<Rightarrow> False | Some s \<Rightarrow> s \<noteq> [])"

definition try_catch :: "(error + 'a) \<Rightarrow> (error \<Rightarrow> error + 'a) \<Rightarrow> error + 'a" where
  "try_catch m h = (case m of Inl e \<Rightarrow> h e | Inr v \<Rightarrow> Inr v)"

definition str_includes :: "string \<Rightarrow> string \<Rightarrow> bool" where
  "str_includes s p = sublist p s"

definition join :: "'a list \<Rightarrow> 'a list list \<Rightarrow> 'a list" where
  "join sep xs = (case xs of [] \<Rightarrow> [] | y # ys \<Rightarrow> y @ concat (map (\<lambda>z. sep @ z) ys))"

section \<open>Token storage utilities\<close>

definition auth_key :: "string \<Rightarrow> string \<Rightarrow> string" where
  "auth_key country provider = ''email_auth_'' @ country @ ''_'' @ provider"

definition userinfo_key :: "string \<Rightarrow> string \<Rightarrow> string" where
  "userinfo_key country provider = ''email_userinfo_'' @ country @ ''_'' @ provider"

definition storeAuthTokens ::
  "platform \<Rightarrow> localStorage \<Rightarrow> string \<Rightarrow> string \<Rightarrow> AuthTokens \<Rightarrow> localStorage" where
  "storeAuthTokens P ls country provider tokens =
     ls(auth_key country provider \<mapsto> JSON_stringify_tokens P tokens)"

definition storeUserInfo ::
  "platform \<Rightarrow> localStorage \<Rightarrow> string \<Rightarrow> string \<Rightarrow> UserInfo \<Rightarrow> localStorage" where
  "storeUserInfo P ls country provider userInfo =
     ls(userinfo_key country provider \<mapsto> JSON_stringify_userinfo P userInfo)"

definition getStoredUserInfo ::
  "platform \<Rightarrow> localStorage \<Rightarrow> string \<Rightarrow> string \<Rightarrow> error + UserInfo option" where
  "getStoredUserInfo P ls country provider =
     (case ls (userinfo_key country provider) of
        None \<Rightarrow> Inr None
      | Some stored \<Rightarrow>
          if stored = [] then Inr None
          else try_catch (JSON_parse_userinfo P stored) (\<lambda>e. Inr None))"

definition clearUserInfo :: "localStorage \<Rightarrow> string \<Rightarrow> string \<Rightarrow> localStorage" where
  "clearUserInfo ls country provider = ls(userinfo_key country provider := None)"

definition getStoredAuthTokens ::
  "platform \<Rightarrow> localStorage \<Rightarrow> string \<Rightarrow> string \<Rightarrow> error + AuthTokens option" where
  "getStoredAuthTokens P ls country provider =
     (case ls (auth_key country provider) of
        None \<Rightarrow> Inr None
      | Some stored \<Rightarrow>
          if stored = [] then Inr None
          else try_catch (JSON_parse_tokens P stored) (\<lambda>e. Inr None))"

definition clearAuthTokens :: "localStorage \<Rightarrow> string \<Rightarrow> string \<Rightarrow> localStorage" where
  "clearAuthTokens ls country provider =
     clearUserInfo (ls(auth_key country provider := None)) country provider"

definition isTokenExpired :: "int \<Rightarrow> AuthTokens \<Rightarrow> bool" where
  "isTokenExpired now tokens = (now \<ge> expiresAt tokens)"

definition isTokenExpiringSoon :: "int \<Rightarrow> AuthTokens \<Rightarrow> bool" where
  "isTokenExpiringSoon now tokens =
     (let fiveMinutesFromNow = now + (5 * 60 * 1000) in fiveMinutesFromNow \<ge> expiresAt tokens)"

section \<open>Provider registry\<close>

definition microsoft_tokenUrl :: string where
  "microsoft_tokenUrl = ''https://login.microsoftonline.com/common/oauth2/v2.0/token''"

definition microsoft_scopes :: "string list" where
  "microsoft_scopes =
     [''https://graph.microsoft.com/Mail.Send'', ''https://graph.microsoft.com/User.Read'',
      ''offline_access'']"

section \<open>Token lifecycle\<close>

definition refresh_request :: "string \<Rightarrow> string \<Rightarrow> http_request" where
  "refresh_request clientId refreshTok =
     \<lparr>url = microsoft_tokenUrl, meth = ''POST'',
      headers = [(''Content-Type'', ''application/x-www-form-urlencoded'')],
      payload = Form [(''client_id'', clientId), (''grant_type'', ''refresh_token''),
                      (''refresh_token'', refreshTok),
                      (''scope'', join '' '' microsoft_scopes)]\<rparr>"

definition refreshed_tokens :: "int \<Rightarrow> string \<Rightarrow> token_response \<Rightarrow> AuthTokens" where
  "refreshed_tokens now refreshTok data =
     \<lparr>accessToken = access_token data,
      refreshToken = (if truthy (refresh_token data) then refresh_token data
                      else Some refreshTok),
      expiresIn = expires_in data,
      expiresAt = now + expires_in data * 1000\<rparr>"

text \<open>
  \<^verbatim>\<open>refreshMicrosoftToken\<close>: the whole body is inside \<^verbatim>\<open>try { ... } catch { return null }\<close>,
  so a missing client id, a rejected \<^verbatim>\<open>fetch\<close> and an unparseable response body all end
  in \<open>None\<close>. \<open>now\<close> is the value of \<^verbatim>\<open>Date.now()\<close> read after the response arrived.
\<close>

definition refreshMicrosoftToken ::
  "platform \<Rightarrow> int \<Rightarrow> world \<Rightarrow> string \<Rightarrow> string \<Rightarrow> AuthTokens option \<times> world" where
  "refreshMicrosoftToken P now w country refreshTok =
     (if \<not> truthy (MICROSOFT_CLIENT_ID P) then (None, w)
      else
        let req = refresh_request (the (MICROSOFT_CLIENT_ID P)) refreshTok;
            w1 = w\<lparr>sent := sent w @ [req]\<rparr>
        in case fetch P (length (sent w)) req of
             Inl e \<Rightarrow> (None, w1)
           | Inr response \<Rightarrow>
               if \<not> (200 \<le> status response \<and> status response \<le> 299) then (None, w1)
               else case response_json_tokens P (bodyText response) of
                      Inl e \<Rightarrow> (None, w1)
                    | Inr data \<Rightarrow>
                        let newTokens = refreshed_tokens now refreshTok data
                        in (Some newTokens,
                            w1\<lparr>storage :=
                                  storeAuthTokens P (storage w1) country ''microsoft'' newTokens\<rparr>))"

text \<open>
  \<^verbatim>\<open>getValidAccessToken\<close>. \<open>now\<close> is \<^verbatim>\<open>Date.now()\<close> at the expiry test, \<open>now'\<close> at the
  end of the refresh. An exception of \<^verbatim>\<open>getStoredAuthTokens\<close> would propagate.
\<close>

definition getValidAccessToken ::
  "platform \<Rightarrow> int \<Rightarrow> int \<Rightarrow> world \<Rightarrow> string \<Rightarrow> provider \<Rightarrow> (error + string option) \<times> world" where
  "getValidAccessToken P now now' w country provider =
     (case getStoredAuthTokens P (storage w) country (provider_str provider) of
        Inl e \<Rightarrow> (Inl e, w)
      | Inr None \<Rightarrow> (Inr None, w)
      | Inr (Some tokens) \<Rightarrow>
          if \<not> isTokenExpired now tokens then (Inr (Some (accessToken tokens)), w)
          else if provider = Microsoft \<and> truthy (refreshToken tokens) then
            (case refreshMicrosoftToken P now' w country (the (refreshToken tokens)) of
               (Some newTokens, w') \<Rightarrow> (Inr (Some (accessToken newTokens)), w')
             | (None, w') \<Rightarrow>
                 (Inr None,
                  w'\<lparr>storage := clearAuthTokens (storage w') country (provider_str provider)\<rparr>))
          else
            (Inr None,
             w\<lparr>storage := clearAuthTokens (storage w) country (provider_str provider)\<rparr>))"

section \<open>PKCE utilities\<close>

record PKCEChallenge =
  codeVerifier :: string
  codeChallenge :: string

definition charset :: string where
  "charset = ''ABCDEFGHIJKLMNOPQRSTUVWXYZabcdefghijklmnopqrstuvwxyz0123456789-._~''"

text \<open>\<^verbatim>\<open>s.charAt(i)\<close> is the empty string when \<open>i\<close> is out of range.\<close>

definition charAt :: "string \<Rightarrow> int \<Rightarrow> string" where
  "charAt s i = (if 0 \<le> i \<and> i < int (length s) then [s ! nat i] else [])"

text \<open>
  The \<^verbatim>\<open>for\<close> loop of \<^verbatim>\<open>generateRandomString\<close>: the first argument counts the iterations
  still to run; each iteration calls \<^verbatim>\<open>Math.random()\<close> once and appends one
  \<^verbatim>\<open>charAt\<close> result.
\<close>

fun random_loop :: "platform \<Rightarrow> nat \<Rightarrow> string \<Rightarrow> world \<Rightarrow> string \<times> world" where
  "random_loop P 0 result w = (result, w)"
| "random_loop P (Suc n) result w =
     random_loop P n
       (result @ charAt charset \<lfloor>Math_random P (rand_calls w) * real (length charset)\<rfloor>)
       (w\<lparr>rand_calls := Suc (rand_calls w)\<rparr>)"

definition generateRandomString :: "platform \<Rightarrow> world \<Rightarrow> nat \<Rightarrow> string \<times> world" where
  "generateRandomString P w len = random_loop P len [] w"

text \<open>
  \<^verbatim>\<open>TextEncoder.encode\<close> and \<^verbatim>\<open>unescape(encodeURIComponent(s))\<close>: the UTF-8 bytes of a
  string, here for code units below 256.
\<close>

definition utf8 :: "string \<Rightarrow> string" where
  "utf8 s = concat (map (\<lambda>c. if (of_char c :: nat) < 128 then [c]
                              else [char_of (192 + (of_char c :: nat) div 64),
                                    char_of (128 + (of_char c :: nat) mod 64)]) s)"

text \<open>\<^verbatim>\<open>btoa\<close>: standard base64 (RFC 4648 section 4) of a binary string, with padding.\<close>

definition b64_alphabet :: string where
  "b64_alphabet = ''ABCDEFGHIJKLMNOPQRSTUVWXYZabcdefghijklmnopqrstuvwxyz0123456789+/''"

definition b64 :: "nat \<Rightarrow> char" where
  "b64 n = b64_alphabet ! n"

fun btoa_bytes :: "nat list \<Rightarrow> string" where
  "btoa_bytes [] = []"
| "btoa_bytes [a] = [b64 (a div 4), b64 ((a mod 4) * 16), CHR ''='', CHR ''='']"
| "btoa_bytes [a, b] =
     [b64 (a div 4), b64 ((a mod 4) * 16 + b div 16), b64 ((b mod 16) * 4), CHR ''='']"
| "btoa_bytes (a # b # c # rest) =
     [b64 (a div 4), b64 ((a mod 4) * 16 + b div 16), b64 ((b mod 16) * 4 + c div 64),
      b64 (c mod 64)] @ btoa_bytes rest"

definition btoa :: "string \<Rightarrow> string" where
  "btoa s = btoa_bytes (map of_char s)"

definition replace_all :: "char \<Rightarrow> char \<Rightarrow> string \<Rightarrow> string" where
  "replace_all a b s = map (\<lambda>c. if c = a then b else c) s"

definition remove_all :: "char \<Rightarrow> string \<Rightarrow> string" where
  "remove_all a s = filter (\<lambda>c. c \<noteq> a) s"

text \<open>\<^verbatim>\<open>s.replace(/=+$/, '')\<close>: drop the run of \<open>=\<close> at the end of the string.\<close>

definition strip_trailing :: "char \<Rightarrow> string \<Rightarrow> string" where
  "strip_trailing a s = rev (dropWhile (\<lambda>c. c = a) (rev s))"

text \<open>
  The three replacements \<^verbatim>\<open>.replace(/\\+/g, '-').replace(/\\//g, '_').replace(/=/g, '')\<close>.
\<close>

definition url_form :: "string \<Rightarrow> string" where
  "url_form s = remove_all (CHR ''='')
                  (replace_all (CHR ''/'') (CHR ''_'') (replace_all (CHR ''+'') (CHR ''-'') s))"

definition generatePKCEChallenge :: "platform \<Rightarrow> world \<Rightarrow> PKCEChallenge \<times> world" where
  "generatePKCEChallenge P w =
     (case generateRandomString P w 128 of
        (verifier, w1) \<Rightarrow>
          let digest = SHA256 P (utf8 verifier);
              base64String = btoa digest;
              challenge = url_form base64String
          in (\<lparr>codeVerifier = verifier, codeChallenge = challenge\<rparr>, w1))"

text \<open>
  The decoder the specification speaks of ("reversing base64url"): RFC 4648 section 5
  alphabet, no padding. It is not part of the source; the challenge is compared with it.
\<close>

definition b64url_alphabet :: string where
  "b64url_alphabet = ''ABCDEFGHIJKLMNOPQRSTUVWXYZabcdefghijklmnopqrstuvwxyz0123456789-_''"

fun index_of :: "char list \<Rightarrow> char \<Rightarrow> nat option" where
  "index_of [] c = None"
| "index_of (x # xs) c = (if x = c then Some 0 else map_option Suc (index_of xs c))"

fun decode_chars :: "string \<Rightarrow> nat list option" where
  "decode_chars [] = Some []"
| "decode_chars (c # cs) =
     (case index_of b64url_alphabet c of
        None \<Rightarrow> None
      | Some v \<Rightarrow> map_option ((#) v) (decode_chars cs))"

fun sextets_to_bytes :: "nat list \<Rightarrow> nat list" where
  "sextets_to_bytes (a # b # c # d # rest) =
     [a * 4 + b div 16, (b mod 16) * 16 + c div 4, (c mod 4) * 64 + d] @ sextets_to_bytes rest"
| "sextets_to_bytes [a, b, c] = [a * 4 + b div 16, (b mod 16) * 16 + c div 4]"
| "sextets_to_bytes [a, b] = [a * 4 + b div 16]"
| "sextets_to_bytes _ = []"

definition base64url_decode :: "string \<Rightarrow> string option" where
  "base64url_decode s = map_option (\<lambda>vs. map char_of (sextets_to_bytes vs)) (decode_chars s)"

section \<open>The OAuth manager\<close>

text \<open>
  The registry \<^verbatim>\<open>OAUTH_PROVIDERS\<close>. The client id is \<^verbatim>\<open>process.env.X || ''\<close>; the
  redirect URI is the origin followed by \<^verbatim>\<open>/auth/callback\<close>.
\<close>

definition or_empty :: "string option \<Rightarrow> string" where
  "or_empty v = (case v of None \<Rightarrow> [] | Some s \<Rightarrow> s)"

fun clientId :: "platform \<Rightarrow> provider \<Rightarrow> string" where
  "clientId P Google = or_empty (GOOGLE_CLIENT_ID P)"
| "clientId P Microsoft = or_empty (MICROSOFT_CLIENT_ID P)"

fun authUrl :: "provider \<Rightarrow> string" where
  "authUrl Google = ''https://accounts.google.com/o/oauth2/v2/auth''"
| "authUrl Microsoft = ''https://login.microsoftonline.com/common/oauth2/v2.0/authorize''"

fun tokenUrl :: "provider \<Rightarrow> string" where
  "tokenUrl Google = ''https://oauth2.googleapis.com/token''"
| "tokenUrl Microsoft = microsoft_tokenUrl"

fun userInfoUrl :: "provider \<Rightarrow> string" where
  "userInfoUrl Google = ''https://www.googleapis.com/oauth2/v2/userinfo''"
| "userInfoUrl Microsoft = ''https://graph.microsoft.com/v1.0/me''"

fun scopes :: "provider \<Rightarrow> string list" where
  "scopes Google = [''https://www.googleapis.com/auth/gmail.send'',
                    ''https://www.googleapis.com/auth/userinfo.email'',
                    ''https://www.googleapis.com/auth/userinfo.profile'']"
| "scopes Microsoft = microsoft_scopes"

definition redirectUri :: "platform \<Rightarrow> string" where
  "redirectUri P = location_origin P @ ''/auth/callback''"

text \<open>
  An instance of \<^verbatim>\<open>SimplifiedOAuthManager\<close>: its provider and the private field
  \<^verbatim>\<open>pkceChallenge\<close>, undefined until \<^verbatim>\<open>getAuthUrl\<close> assigns it.
\<close>

record manager =
  mgr_provider :: provider
  pkceChallenge :: "PKCEChallenge option"

definition createOAuthManager :: "provider \<Rightarrow> manager" where
  "createOAuthManager p = \<lparr>mgr_provider = p, pkceChallenge = None\<rparr>"

definition config_error :: "provider \<Rightarrow> error" where
  "config_error p =
     Error (provider_str p @
       '' OAuth client ID is not properly configured. Please check your environment variables.'')"

text \<open>
  \<^verbatim>\<open>getAuthUrl(state?)\<close>. The result is the URL or the thrown error, with the manager and the
  world after the call. \<open>now\<close> is \<^verbatim>\<open>Date.now()\<close>.
\<close>

definition getAuthUrl ::
  "platform \<Rightarrow> int \<Rightarrow> world \<Rightarrow> manager \<Rightarrow> string option
     \<Rightarrow> (error + string) \<times> manager \<times> world" where
  "getAuthUrl P now w m st =
     (let p = mgr_provider m; cid = clientId P p in
      if cid = [] \<or> str_includes cid ''your-'' \<or> cid = [] then (Inl (config_error p), m, w)
      else
        let params = [(''client_id'', cid), (''response_type'', ''code''),
                      (''scope'', join '' '' (scopes p)), (''redirect_uri'', redirectUri P),
                      (''state'', if truthy st then the st
                                  else provider_str p @ ''_'' @ Number_toString P now)]
        in case (if p = Microsoft \<or> p = Google
                 then (case generatePKCEChallenge P w of
                         (ch, w1) \<Rightarrow>
                           (m\<lparr>pkceChallenge := Some ch\<rparr>, w1,
                            params @ [(''code_challenge'', codeChallenge ch),
                                      (''code_challenge_method'', ''S256'')]))
                 else (m, w, params)) of
             (m1, w1, params1) \<Rightarrow>
               let params2 = (if p = Google
                              then params1 @ [(''access_type'', ''offline''),
                                              (''prompt'', ''consent'')]
                              else params1)
               in (Inr (authUrl p @ ''?'' @ URLSearchParams_toString P params2), m1, w1))"

definition missing_challenge :: error where
  "missing_challenge = Error ''PKCE challenge not found. Make sure to call getAuthUrl first.''"

definition exchange_request :: "platform \<Rightarrow> provider \<Rightarrow> string \<Rightarrow> string \<Rightarrow> http_request" where
  "exchange_request P p code verifier =
     \<lparr>url = tokenUrl p, meth = ''POST'',
      headers = [(''Content-Type'', ''application/x-www-form-urlencoded''),
                 (''Accept'', ''application/json'')],
      payload = Form [(''client_id'', clientId P p), (''code'', code),
                      (''grant_type'', ''authorization_code''),
                      (''redirect_uri'', redirectUri P), (''code_verifier'', verifier)]\<rparr>"

definition ok :: "http_response \<Rightarrow> bool" where
  "ok response = (200 \<le> status response \<and> status response \<le> 299)"

text \<open>The body of the \<^verbatim>\<open>try\<close> block of \<^verbatim>\<open>exchangeCodeForTokens\<close>, after \<^verbatim>\<open>fetch\<close> settled.\<close>

definition exchange_response ::
  "platform \<Rightarrow> int \<Rightarrow> error + http_response \<Rightarrow> error + AuthTokens" where
  "exchange_response P now r =
     (case r of
        Inl e \<Rightarrow> Inl e
      | Inr response \<Rightarrow>
          if \<not> ok response then
            (let errorText = bodyText response;
                 generic = Error (''Token exchange failed: '' @
                             Number_toString P (int (status response)) @ '' '' @
                             statusText response @ '' - '' @ errorText)
             in if status response = 400 then
                  (if str_includes errorText ''invalid_grant'' then
                     Inl (Error ''Invalid authorization code or code expired. Please try authenticating again.'')
                   else if str_includes errorText ''redirect_uri_mismatch'' then
                     Inl (Error ''Redirect URI mismatch. Please check your OAuth application configuration.'')
                   else Inl generic)
                else if status response = 401 then
                  Inl (Error ''Authentication failed. Please check your OAuth client configuration.'')
                else Inl generic)
          else
            (case response_json_tokens P (bodyText response) of
               Inl e \<Rightarrow> Inl e
             | Inr data \<Rightarrow>
                 Inr \<lparr>accessToken = access_token data, refreshToken = refresh_token data,
                      expiresIn = expires_in data,
                      expiresAt = now + expires_in data * 1000\<rparr>))"

text \<open>The \<^verbatim>\<open>catch\<close> block: a \<^verbatim>\<open>TypeError\<close> "Failed to fetch" is replaced, all else rethrown.\<close>

definition exchange_catch :: "error \<Rightarrow> error + AuthTokens" where
  "exchange_catch e =
     (case e of
        TypeError msg \<Rightarrow>
          if str_includes msg ''Failed to fetch''
          then Inl (Error ''Network error during authentication. Please check your internet connection and try again.'')
          else Inl e
      | _ \<Rightarrow> Inl e)"

text \<open>
  \<^verbatim>\<open>exchangeCodeForTokens(code)\<close>. The method reads \<^verbatim>\<open>this.pkceChallenge\<close> and assigns to no
  field of the manager, so the manager after the call is the manager before it.
\<close>

definition exchangeCodeForTokens ::
  "platform \<Rightarrow> int \<Rightarrow> world \<Rightarrow> manager \<Rightarrow> string \<Rightarrow> (error + AuthTokens) \<times> world" where
  "exchangeCodeForTokens P now w m code =
     (case pkceChallenge m of
        None \<Rightarrow> (Inl missing_challenge, w)
      | Some ch \<Rightarrow>
          let req = exchange_request P (mgr_provider m) code (codeVerifier ch)
          in (try_catch (exchange_response P now (fetch P (length (sent w)) req)) exchange_catch,
              w\<lparr>sent := sent w @ [req]\<rparr>))"

definition getUserInfo ::
  "platform \<Rightarrow> world \<Rightarrow> manager \<Rightarrow> string \<Rightarrow> (error + UserInfo) \<times> world" where
  "getUserInfo P w m accessTok =
     (let req = \<lparr>url = userInfoUrl (mgr_provider m), meth = ''GET'',
                 headers = [(''Authorization'', ''Bearer '' @ accessTok)], payload = NoBody\<rparr>
      in (case fetch P (length (sent w)) req of
            Inl e \<Rightarrow> Inl e
          | Inr response \<Rightarrow>
              if \<not> ok response then
                Inl (Error (''Failed to get user info: '' @
                       Number_toString P (int (status response)) @ '' '' @
                       statusText response @ '' - '' @ bodyText response))
              else
                (case response_json_userinfo P (bodyText response) of
                   Inl e \<Rightarrow> Inl e
                 | Inr data \<Rightarrow>
                     if mgr_provider m = Google then
                       Inr \<lparr>user_id = r_id data, email = r_email data, user_name = r_name data,
                            picture = r_picture data\<rparr>
                     else
                       Inr \<lparr>user_id = r_id data,
                            email = (if truthy (r_mail data) then the (r_mail data)
                                     else r_userPrincipalName data),
                            user_name = r_displayName data,
                            picture = r_photo_value data\<rparr>),
          w\<lparr>sent := sent w @ [req]\<rparr>))"

section \<open>Sending mail through Gmail\<close>

text \<open>
  The text of a mail is a list of UTF-16 code units, so that any JavaScript string can be
  a subject, a body or an attachment field; \<open>ascii\<close> embeds the string literals of the
  source.
\<close>

definition ascii :: "string \<Rightarrow> jstext" where
  "ascii s = map of_char s"

record attachment =
  filename :: jstext
  content :: jstext
  contentType :: jstext

record emailData =
  mail_to :: "jstext list"
  subject :: jstext
  body_html :: jstext
  mail_from :: "jstext option"
  attachments :: "attachment list option"

definition nl :: jstext where
  "nl = [0x0A]"

definition dq :: jstext where
  "dq = [0x22]"

text \<open>\<^verbatim>\<open>'boundary_' + Math.random().toString(36).substr(2, 9)\<close>, one call of the random source.\<close>

definition make_boundary :: "platform \<Rightarrow> world \<Rightarrow> jstext" where
  "make_boundary P w =
     ascii ''boundary_'' @
     ascii (take 9 (drop 2 (Number_toString36 P (Math_random P (rand_calls w)))))"

definition multipart_head :: "jstext \<Rightarrow> emailData \<Rightarrow> jstext" where
  "multipart_head boundary d =
     join nl [ascii ''To: '' @ join (ascii '', '') (mail_to d),
              ascii ''Subject: '' @ subject d,
              ascii ''MIME-Version: 1.0'',
              ascii ''Content-Type: multipart/mixed; boundary='' @ dq @ boundary @ dq,
              [],
              ascii ''--'' @ boundary,
              ascii ''Content-Type: text/html; charset=utf-8'',
              [],
              body_html d,
              []]"

definition attachment_part :: "jstext \<Rightarrow> attachment \<Rightarrow> jstext" where
  "attachment_part boundary a =
     join nl [ascii ''--'' @ boundary,
              ascii ''Content-Type: '' @ contentType a,
              ascii ''Content-Disposition: attachment; filename='' @ dq @ filename a @ dq,
              ascii ''Content-Transfer-Encoding: base64'',
              [],
              content a,
              []]"

definition simple_message :: "emailData \<Rightarrow> jstext" where
  "simple_message d =
     join nl [ascii ''To: '' @ join (ascii '', '') (mail_to d),
              ascii ''Subject: '' @ subject d,
              ascii ''Content-Type: text/html; charset=utf-8'',
              [],
              body_html d]"

text \<open>The message text built by \<^verbatim>\<open>sendGmailEmail\<close>; \<^verbatim>\<open>forEach\<close> is a left fold.\<close>

definition gmail_message :: "platform \<Rightarrow> world \<Rightarrow> emailData \<Rightarrow> jstext \<times> world" where
  "gmail_message P w d =
     (case attachments d of
        None \<Rightarrow> (simple_message d, w)
      | Some [] \<Rightarrow> (simple_message d, w)
      | Some (a # as) \<Rightarrow>
          let boundary = make_boundary P w;
              message = multipart_head boundary d;
              message' = foldl (\<lambda>msg att. msg @ attachment_part boundary att) message (a # as)
          in (message' @ ascii ''--'' @ boundary @ ascii ''--'',
              w\<lparr>rand_calls := Suc (rand_calls w)\<rparr>))"

text \<open>
  \<^verbatim>\<open>btoa(unescape(encodeURIComponent(message)))\<close> followed by the three replacements. The
  \<^verbatim>\<open>URIError\<close> of \<^verbatim>\<open>encodeURIComponent\<close> propagates.
\<close>

definition encode_raw :: "platform \<Rightarrow> jstext \<Rightarrow> error + string" where
  "encode_raw P message =
     (case unescape_encodeURIComponent P message of
        Inl e \<Rightarrow> Inl e
      | Inr binary \<Rightarrow>
          Inr (strip_trailing (CHR ''='')
                 (replace_all (CHR ''/'') (CHR ''_'')
                    (replace_all (CHR ''+'') (CHR ''-'') (btoa binary)))))"

definition gmail_request :: "string \<Rightarrow> string \<Rightarrow> http_request" where
  "gmail_request accessTok encodedMessage =
     \<lparr>url = ''https://gmail.googleapis.com/gmail/v1/users/me/messages/send'', meth = ''POST'',
      headers = [(''Authorization'', ''Bearer '' @ accessTok),
                 (''Content-Type'', ''application/json'')],
      payload = Json [(''raw'', encodedMessage)]\<rparr>"

text \<open>
  \<^verbatim>\<open>sendGmailEmail\<close>: when the encoding throws, the exception leaves the function before
  \<^verbatim>\<open>fetch\<close> is called and nothing is sent.
\<close>

definition sendGmailEmail ::
  "platform \<Rightarrow> world \<Rightarrow> string \<Rightarrow> emailData \<Rightarrow> (error + bool) \<times> world" where
  "sendGmailEmail P w accessTok d =
     (case gmail_message P w d of
        (message, w1) \<Rightarrow>
          (case encode_raw P message of
             Inl e \<Rightarrow> (Inl e, w1)
           | Inr encodedMessage \<Rightarrow>
               let req = gmail_request accessTok encodedMessage
               in (case fetch P (length (sent w1)) req of
                     Inl e \<Rightarrow> Inl e
                   | Inr response \<Rightarrow> Inr (ok response),
                   w1\<lparr>sent := sent w1 @ [req]\<rparr>)))"

section \<open>The popup flow\<close>

text \<open>
  \<^verbatim>\<open>authenticateWithPopup\<close> returns a promise and leaves three callbacks behind: the
  \<^verbatim>\<open>message\<close> listener, the \<^verbatim>\<open>checkClosed\<close> interval and the two-minute timeout. The run
  is a transition system over the record \<open>flow\<close>; every task the event loop can run is one
  \<open>event\<close>. The listener is an \<^verbatim>\<open>async\<close> function: on an accepted success message it
  suspends at \<^verbatim>\<open>await oauth.exchangeCodeForTokens(...)\<close>, so other tasks run before it
  goes on. \<open>inflight\<close> holds the codes of the suspended invocations, and the event
  \<open>HandlerCompletes i now\<close> runs the rest of the \<open>i\<close>-th of them (the exchange, the
  user-info request, the two writes, the teardown) with \<open>now\<close> for \<^verbatim>\<open>Date.now()\<close>. Nothing
  in that rest reads a field another task writes, so running it in one step loses no
  behaviour. A promise settles once: \<open>settle\<close> ignores every later \<^verbatim>\<open>resolve\<close> or
  \<^verbatim>\<open>reject\<close>.
\<close>

record msg_data =
  msg_type :: string
  msg_code :: "string option"
  msg_error :: string

datatype event =
    Message string "msg_data option"
  | PopupClosedByUser
  | Tick
  | Timeout
  | HandlerCompletes nat int

datatype outcome = Pending | Resolved AuthTokens UserInfo | Rejected error

record flow =
  fw :: world
  oauth :: manager
  listener :: bool
  checkClosed :: bool
  timeout_armed :: bool
  popup_closed :: bool
  promise :: outcome
  inflight :: "string list"

definition settle :: "outcome \<Rightarrow> flow \<Rightarrow> flow" where
  "settle r s = (if promise s = Pending then s\<lparr>promise := r\<rparr> else s)"

text \<open>
  The listener up to its first \<^verbatim>\<open>await\<close>. A message without data makes
  \<^verbatim>\<open>event.data.type\<close> throw inside the listener, which changes nothing.
\<close>

definition messageHandler :: "platform \<Rightarrow> flow \<Rightarrow> string \<Rightarrow> msg_data option \<Rightarrow> flow" where
  "messageHandler P s origin data =
     (if origin \<noteq> location_origin P then s
      else case data of
        None \<Rightarrow> s
      | Some d \<Rightarrow>
          if (msg_type d = ''oauth_success'' \<or> msg_type d = ''sso_auth_success'')
             \<and> truthy (msg_code d)
          then s\<lparr>inflight := inflight s @ [the (msg_code d)]\<rparr>
          else if msg_type d = ''oauth_error'' \<or> msg_type d = ''sso_auth_error''
          then settle (Rejected (Error (msg_error d)))
                 (s\<lparr>listener := False, popup_closed := True\<rparr>)
          else s)"

text \<open>The rest of the listener after the \<^verbatim>\<open>await\<close>: the \<^verbatim>\<open>try\<close> block and its \<^verbatim>\<open>catch\<close>.\<close>

definition handler_rest ::
  "platform \<Rightarrow> provider \<Rightarrow> string \<Rightarrow> int \<Rightarrow> flow \<Rightarrow> string \<Rightarrow> flow" where
  "handler_rest P provider country now s code =
     (case exchangeCodeForTokens P now (fw s) (oauth s) code of
        (Inl e, w1) \<Rightarrow>
          settle (Rejected e) (s\<lparr>fw := w1, listener := False, popup_closed := True\<rparr>)
      | (Inr tokens, w1) \<Rightarrow>
          (case getUserInfo P w1 (oauth s) (accessToken tokens) of
             (Inl e, w2) \<Rightarrow>
               settle (Rejected e) (s\<lparr>fw := w2, listener := False, popup_closed := True\<rparr>)
           | (Inr userInfo, w2) \<Rightarrow>
               settle (Resolved tokens userInfo)
                 (s\<lparr>fw := w2\<lparr>storage :=
                             storeUserInfo P
                               (storeAuthTokens P (storage w2) country (provider_str provider)
                                  tokens)
                               country (provider_str provider) userInfo\<rparr>,
                    listener := False, popup_closed := True\<rparr>)))"

definition step :: "platform \<Rightarrow> provider \<Rightarrow> string \<Rightarrow> flow \<Rightarrow> event \<Rightarrow> flow" where
  "step P provider country s ev =
     (case ev of
        Message origin data \<Rightarrow> if listener s then messageHandler P s origin data else s
      | PopupClosedByUser \<Rightarrow> s\<lparr>popup_closed := True\<rparr>
      | Tick \<Rightarrow>
          if checkClosed s \<and> popup_closed s
          then settle (Rejected (Error ''Authentication cancelled''))
                 (s\<lparr>checkClosed := False, listener := False\<rparr>)
          else s
      | Timeout \<Rightarrow>
          if \<not> timeout_armed s then s
          else if \<not> popup_closed s
          then settle (Rejected (Error ''Authentication timeout - please try again''))
                 (s\<lparr>timeout_armed := False, checkClosed := False, listener := False,
                    popup_closed := True\<rparr>)
          else s\<lparr>timeout_armed := False\<rparr>
      | HandlerCompletes i now \<Rightarrow>
          if i < length (inflight s)
          then handler_rest P provider country now
                 (s\<lparr>inflight := take i (inflight s) @ drop (Suc i) (inflight s)\<rparr>)
                 (inflight s ! i)
          else s)"

definition run :: "platform \<Rightarrow> provider \<Rightarrow> string \<Rightarrow> flow \<Rightarrow> event list \<Rightarrow> flow" where
  "run P provider country s evs = foldl (step P provider country) s evs"

fun error_message :: "error \<Rightarrow> string" where
  "error_message (Error m) = m"
| "error_message (TypeError m) = m"
| "error_message (SyntaxError m) = m"
| "error_message (URIError m) = m"

definition idle :: "world \<Rightarrow> manager \<Rightarrow> outcome \<Rightarrow> flow" where
  "idle w m r = \<lparr>fw = w, oauth = m, listener = False, checkClosed = False,
                timeout_armed = False, popup_closed = True, promise = r, inflight = []\<rparr>"

text \<open>
  \<^verbatim>\<open>authenticateWithPopup\<close> up to the point where it returns the promise. \<open>popup_opens\<close>
  tells whether \<^verbatim>\<open>window.open\<close> returned a window.
\<close>

definition authenticateWithPopup ::
  "platform \<Rightarrow> int \<Rightarrow> world \<Rightarrow> provider \<Rightarrow> string \<Rightarrow> bool \<Rightarrow> flow" where
  "authenticateWithPopup P now w provider country popup_opens =
     (case getAuthUrl P now w (createOAuthManager provider)
             (Some (country @ ''_'' @ Number_toString P now)) of
        (Inl e, m, w1) \<Rightarrow>
          idle w1 m (Rejected (Error (''Failed to generate auth URL: '' @ error_message e)))
      | (Inr u, m, w1) \<Rightarrow>
          if \<not> popup_opens
          then idle w1 m (Rejected (Error ''Popup blocked. Please allow popups for this site.''))
          else \<lparr>fw = w1, oauth = m, listener = True, checkClosed = True, timeout_armed = True,
                popup_closed = False, promise = Pending, inflight = []\<rparr>)"

section \<open>A sample platform\<close>

text \<open>
  One concrete platform and a few concrete values, used to evaluate the definitions on
  explicit inputs. The sample parser accepts the texts \<open>''T''\<close> and \<open>''tok:B''\<close> (token
  records) and the text \<open>''null''\<close>; every other text is a syntax error. The sample
  encoder handles ASCII text and throws on everything else.
\<close>

definition sample_tokens :: AuthTokens where
  "sample_tokens = \<lparr>accessToken = ''A'', refreshToken = Some ''R'', expiresIn = 3600,
                     expiresAt = 5000\<rparr>"

definition sample_user :: UserInfo where
  "sample_user = \<lparr>user_id = ''7'', email = ''u@example.org'', user_name = ''U'', picture = None\<rparr>"

definition sample_platform :: platform where
  "sample_platform =
     \<lparr>JSON_parse_tokens =
        (\<lambda>s. if s = ''T'' then Inr (Some sample_tokens)
             else if s = ''tok:B''
             then Inr (Some \<lparr>accessToken = ''B'', refreshToken = None, expiresIn = 3600,
                              expiresAt = 3607000\<rparr>)
             else if s = ''null'' then Inr None else Inl (SyntaxError ''Unexpected token'')),
      JSON_parse_userinfo =
        (\<lambda>s. if s = ''U'' then Inr (Some sample_user)
             else if s = ''null'' then Inr None else Inl (SyntaxError ''Unexpected token'')),
      JSON_stringify_tokens = (\<lambda>t. ''tok:'' @ accessToken t),
      JSON_stringify_userinfo = (\<lambda>u. ''U''),
      fetch = (\<lambda>n req. Inr \<lparr>status = 200, statusText = ''OK'', bodyText = ''{}''\<rparr>),
      response_json_tokens =
        (\<lambda>s. Inr \<lparr>access_token = ''B'', refresh_token = None, expires_in = 3600\<rparr>),
      response_json_userinfo =
        (\<lambda>s. Inr \<lparr>r_id = ''7'', r_email = ''u@example.org'', r_name = ''U'', r_picture = None,
                  r_mail = None, r_userPrincipalName = ''u@example.org'', r_displayName = ''U'',
                  r_photo_value = None\<rparr>),
      Math_random = (\<lambda>n. 0),
      SHA256 = (\<lambda>s. ''0123456789abcdef0123456789abcdef''),
      Number_toString = (\<lambda>n. ''0''),
      Number_toString36 = (\<lambda>r. ''0.4fzyo82mvyr''),
      URLSearchParams_toString = (\<lambda>ps. join ''&'' (map (\<lambda>(k, v). k @ ''='' @ v) ps)),
      unescape_encodeURIComponent =
        (\<lambda>s. if list_all (\<lambda>c. c < 128) s then Inr (map char_of s)
             else Inl (URIError ''URI malformed'')),
      GOOGLE_CLIENT_ID = Some ''g-client'',
      MICROSOFT_CLIENT_ID = Some ''m-client'',
      location_origin = ''https://app.example.org''\<rparr>"

definition offline_platform :: platform where
  "offline_platform = sample_platform\<lparr>fetch := (\<lambda>n req. Inl (TypeError ''Failed to fetch''))\<rparr>"

definition sample_world :: world where
  "sample_world = \<lparr>storage = [auth_key ''SG'' ''microsoft'' \<mapsto> ''T'',
                               auth_key ''SG'' ''google'' \<mapsto> ''T'',
                               userinfo_key ''SG'' ''google'' \<mapsto> ''{''],
                    sent = [], rand_calls = 0\<rparr>"

definition unconfigured_platform :: platform where
  "unconfigured_platform =
     sample_platform\<lparr>GOOGLE_CLIENT_ID := Some ''your-google-client-id'',
                     MICROSOFT_CLIENT_ID := None\<rparr>"

definition sample_manager :: manager where
  "sample_manager =
     fst (snd (getAuthUrl sample_platform 0 sample_world (createOAuthManager Google) None))"

definition world_after_url :: world where
  "world_after_url =
     snd (snd (getAuthUrl sample_platform 0 sample_world (createOAuthManager Google) None))"

definition world_after_first :: world where
  "world_after_first =
     snd (exchangeCodeForTokens sample_platform 1 world_after_url sample_manager ''code-1'')"

definition att1 :: attachment where
  "att1 = \<lparr>filename = ascii ''a.pdf'', content = ascii ''QUJD'',
            contentType = ascii ''application/pdf''\<rparr>"

definition att2 :: attachment where
  "att2 = \<lparr>filename = ascii ''b.txt'', content = ascii ''REVG'',
            contentType = ascii ''text/plain''\<rparr>"

definition sample_mail :: emailData where
  "sample_mail = \<lparr>mail_to = [ascii ''x@example.org'', ascii ''y@example.org''],
                   subject = ascii ''Hi'', body_html = ascii ''<p>Hello</p>'', mail_from = None,
                   attachments = Some [att1, att2]\<rparr>"

text \<open>The text of the sample mail and its encoding, as a mail client would produce them.\<close>

definition sample_text :: string where
  "sample_text =
     ''To: x@example.org, y@example.org'' @ [CHR 0x0A] @ ''Subject: Hi'' @ [CHR 0x0A] @
     ''MIME-Version: 1.0'' @ [CHR 0x0A] @
     ''Content-Type: multipart/mixed; boundary='' @ [CHR 0x22] @ ''boundary_4fzyo82mv'' @
       [CHR 0x22] @ [CHR 0x0A] @ [CHR 0x0A] @
     ''--boundary_4fzyo82mv'' @ [CHR 0x0A] @
     ''Content-Type: text/html; charset=utf-8'' @ [CHR 0x0A] @ [CHR 0x0A] @ ''<p>Hello</p>'' @
       [CHR 0x0A] @
     ''--boundary_4fzyo82mv'' @ [CHR 0x0A] @
     ''Content-Type: application/pdf'' @ [CHR 0x0A] @
     ''Content-Disposition: attachment; filename='' @ [CHR 0x22] @ ''a.pdf'' @ [CHR 0x22] @
       [CHR 0x0A] @
     ''Content-Transfer-Encoding: base64'' @ [CHR 0x0A] @ [CHR 0x0A] @ ''QUJD'' @ [CHR 0x0A] @
     ''--boundary_4fzyo82mv'' @ [CHR 0x0A] @
     ''Content-Type: text/plain'' @ [CHR 0x0A] @
     ''Content-Disposition: attachment; filename='' @ [CHR 0x22] @ ''b.txt'' @ [CHR 0x22] @
       [CHR 0x0A] @
     ''Content-Transfer-Encoding: base64'' @ [CHR 0x0A] @ [CHR 0x0A] @ ''REVG'' @ [CHR 0x0A] @
     ''--boundary_4fzyo82mv--''"

definition sample_raw :: string where
  "sample_raw =
     ''VG86IHhAZXhhbXBsZS5vcmcsIHlAZXhhbXBsZS5vcmcKU3ViamVjdDogSGkKTUlNRS1WZXJzaW9uOiAx'' @
     ''LjAKQ29udGVudC1UeXBlOiBtdWx0aXBhcnQvbWl4ZWQ7IGJvdW5kYXJ5PSJib3VuZGFyeV80Znp5bzgy'' @
     ''bXYiCgotLWJvdW5kYXJ5XzRmenlvODJtdgpDb250ZW50LVR5cGU6IHRleHQvaHRtbDsgY2hhcnNldD11'' @
     ''dGYtOAoKPHA-SGVsbG88L3A-Ci0tYm91bmRhcnlfNGZ6eW84Mm12CkNvbnRlbnQtVHlwZTogYXBwbGlj'' @
     ''YXRpb24vcGRmCkNvbnRlbnQtRGlzcG9zaXRpb246IGF0dGFjaG1lbnQ7IGZpbGVuYW1lPSJhLnBkZiIK'' @
     ''Q29udGVudC1UcmFuc2Zlci1FbmNvZGluZzogYmFzZTY0CgpRVUpECi0tYm91bmRhcnlfNGZ6eW84Mm12'' @
     ''CkNvbnRlbnQtVHlwZTogdGV4dC9wbGFpbgpDb250ZW50LURpc3Bvc2l0aW9uOiBhdHRhY2htZW50OyBm'' @
     ''aWxlbmFtZT0iYi50eHQiCkNvbnRlbnQtVHJhbnNmZXItRW5jb2Rpbmc6IGJhc2U2NAoKUkVWRwotLWJv'' @
     ''dW5kYXJ5XzRmenlvODJtdi0t''"

definition surrogate_mail :: emailData where
  "surrogate_mail = sample_mail\<lparr>subject := [0xD800]\<rparr>"

text \<open>
  A message the listener does not act on: wrong origin, no data, or a payload that is
  neither a success message with a non-empty code nor an error message.
\<close>

fun ignored_message :: "platform \<Rightarrow> event \<Rightarrow> bool" where
  "ignored_message P (Message origin data) =
     (origin \<noteq> location_origin P \<or>
      (case data of
         None \<Rightarrow> True
       | Some d \<Rightarrow>
           \<not> ((msg_type d = ''oauth_success'' \<or> msg_type d = ''sso_auth_success'')
               \<and> truthy (msg_code d)) \<and>
           \<not> (msg_type d = ''oauth_error'' \<or> msg_type d = ''sso_auth_error'')))"
| "ignored_message P _ = False"

definition fresh_world :: world where
  "fresh_world = \<lparr>storage = Map.empty, sent = [], rand_calls = 0\<rparr>"

definition success_msg :: msg_data where
  "success_msg = \<lparr>msg_type = ''oauth_success'', msg_code = Some ''code-1'', msg_error = []\<rparr>"

definition opened_flow :: flow where
  "opened_flow = authenticateWithPopup sample_platform 0 fresh_world Google ''SG'' True"

definition reconnect_flow :: flow where
  "reconnect_flow = authenticateWithPopup sample_platform 0 sample_world Google ''SG'' True"

definition awaiting_flow :: flow where
  "awaiting_flow = step sample_platform Google ''SG'' opened_flow
                     (Message ''https://app.example.org'' (Some success_msg))"

definition quiet_close :: "event list" where
  "quiet_close = [Message ''https://evil.example'' (Some success_msg), Tick, PopupClosedByUser,
                  Timeout, Tick,
                  Message ''https://app.example.org'' (Some success_msg),
                  HandlerCompletes 0 7000]"

definition late_message :: "event list" where
  "late_message = [PopupClosedByUser, Message ''https://app.example.org'' (Some success_msg),
                   Tick, HandlerCompletes 0 7000]"

section \<open>Facts about the storage keys\<close>

lemma auth_key_inject:
  assumes "p \<in> {''google'', ''microsoft''}" "p' \<in> {''google'', ''microsoft''}"
    and "auth_key c p = auth_key c' p'"
  shows "c = c' \<and> p = p'"
proof -
  from assms(3) have eq: "c @ ''_'' @ p = c' @ ''_'' @ p'"
    by (simp add: auth_key_def)
  have "p = p'"
  proof (rule ccontr)
    assume "p \<noteq> p'"
    with assms(1,2) have "last (c @ ''_'' @ p) \<noteq> last (c' @ ''_'' @ p')"
      by auto
    with eq show False by simp
  qed
  with eq show ?thesis by simp
qed

lemma userinfo_key_inject:
  assumes "p \<in> {''google'', ''microsoft''}" "p' \<in> {''google'', ''microsoft''}"
    and "userinfo_key c p = userinfo_key c' p'"
  shows "c = c' \<and> p = p'"
proof -
  from assms(3) have eq: "c @ ''_'' @ p = c' @ ''_'' @ p'"
    by (simp add: userinfo_key_def)
  have "p = p'"
  proof (rule ccontr)
    assume "p \<noteq> p'"
    with assms(1,2) have "last (c @ ''_'' @ p) \<noteq> last (c' @ ''_'' @ p')"
      by auto
    with eq show False by simp
  qed
  with eq show ?thesis by simp
qed

lemma auth_key_neq_userinfo_key: "auth_key c p \<noteq> userinfo_key c' p'"
  by (simp add: auth_key_def userinfo_key_def)


section \<open>Reading the store\<close>

lemma getStoredAuthTokens_total: "\<exists>v. getStoredAuthTokens P ls c p = Inr v"
  by (simp add: getStoredAuthTokens_def try_catch_def split: option.split sum.split)

lemma getStoredUserInfo_total: "\<exists>v. getStoredUserInfo P ls c p = Inr v"
  by (simp add: getStoredUserInfo_def try_catch_def split: option.split sum.split)

text \<open>
  Claim C8. The two read operations of the token store never throw: for every store, every
  key and every behaviour of the parser the result is a value. An absent record reads as
  \<^verbatim>\<open>null\<close>, and a stored payload on which \<^verbatim>\<open>JSON.parse\<close> throws reads as \<^verbatim>\<open>null\<close> too.
\<close>

theorem C8_store_reads_never_throw:
  "(\<exists>v. getStoredAuthTokens P ls c p = Inr v) \<and>
   (\<exists>v. getStoredUserInfo P ls c p = Inr v) \<and>
   (ls (auth_key c p) = None \<longrightarrow> getStoredAuthTokens P ls c p = Inr None) \<and>
   (ls (userinfo_key c p) = None \<longrightarrow> getStoredUserInfo P ls c p = Inr None) \<and>
   (\<forall>stored e. ls (auth_key c p) = Some stored \<and> JSON_parse_tokens P stored = Inl e
      \<longrightarrow> getStoredAuthTokens P ls c p = Inr None) \<and>
   (\<forall>stored e. ls (userinfo_key c p) = Some stored \<and> JSON_parse_userinfo P stored = Inl e
      \<longrightarrow> getStoredUserInfo P ls c p = Inr None)"
proof -
  have "ls (auth_key c p) = None \<longrightarrow> getStoredAuthTokens P ls c p = Inr None"
    and "ls (userinfo_key c p) = None \<longrightarrow> getStoredUserInfo P ls c p = Inr None"
    by (simp_all add: getStoredAuthTokens_def getStoredUserInfo_def)
  moreover have "\<forall>stored e. ls (auth_key c p) = Some stored \<and> JSON_parse_tokens P stored = Inl e
      \<longrightarrow> getStoredAuthTokens P ls c p = Inr None"
    by (auto simp add: getStoredAuthTokens_def try_catch_def)
  moreover have "\<forall>stored e. ls (userinfo_key c p) = Some stored \<and> JSON_parse_userinfo P stored = Inl e
      \<longrightarrow> getStoredUserInfo P ls c p = Inr None"
    by (auto simp add: getStoredUserInfo_def try_catch_def)
  ultimately show ?thesis
    using getStoredAuthTokens_total [of P ls c p] getStoredUserInfo_total [of P ls c p]
    by blast
qed

theorem C8_store_reads_never_throw_witness:
  "storage sample_world (userinfo_key ''SG'' ''google'') = Some ''{'' \<and>
   JSON_parse_userinfo sample_platform ''{'' = Inl (SyntaxError ''Unexpected token'') \<and>
   getStoredUserInfo sample_platform (storage sample_world) ''SG'' ''google'' = Inr None \<and>
   storage sample_world (auth_key ''MY'' ''google'') = None \<and>
   getStoredAuthTokens sample_platform (storage sample_world) ''MY'' ''google'' = Inr None"
proof -
  have a: "storage sample_world (userinfo_key ''SG'' ''google'') = Some ''{''"
    by (simp add: sample_world_def userinfo_key_def auth_key_def)
  have b: "JSON_parse_userinfo sample_platform ''{'' = Inl (SyntaxError ''Unexpected token'')"
    by (simp add: sample_platform_def)
  have c: "storage sample_world (auth_key ''MY'' ''google'') = None"
    by (simp add: sample_world_def userinfo_key_def auth_key_def)
  from a b c
    C8_store_reads_never_throw [of sample_platform "storage sample_world" "''SG''" "''google''"]
    C8_store_reads_never_throw [of sample_platform "storage sample_world" "''MY''" "''google''"]
  show ?thesis by blast
qed

section \<open>Independence of identity keys\<close>

lemma other_keys:
  assumes "p \<in> {''google'', ''microsoft''}" "p' \<in> {''google'', ''microsoft''}"
    and "(c, p) \<noteq> (c', p')"
  shows "auth_key c p \<noteq> auth_key c' p'" "userinfo_key c p \<noteq> userinfo_key c' p'"
    "auth_key c p \<noteq> userinfo_key c' p'" "userinfo_key c p \<noteq> auth_key c' p'"
  using assms auth_key_inject [of p p' c c'] userinfo_key_inject [of p p' c c']
    auth_key_neq_userinfo_key [of c p c' p'] auth_key_neq_userinfo_key [of c' p' c p]
  by auto

text \<open>
  Claim C9. For two distinct identity keys whose providers are \<open>google\<close> or \<open>microsoft\<close>,
  each of the four writing operations applied to the first key leaves the token record and
  the user-info record of the second key as they were; and \<^verbatim>\<open>clearAuthTokens\<close> removes both
  the token record and the user-info record of its own key.
\<close>

theorem C9_identity_keys_independent:
  assumes "p \<in> {''google'', ''microsoft''}" "p' \<in> {''google'', ''microsoft''}"
    and "(c, p) \<noteq> (c', p')"
  shows "storeAuthTokens P ls c p t (auth_key c' p') = ls (auth_key c' p') \<and>
         storeAuthTokens P ls c p t (userinfo_key c' p') = ls (userinfo_key c' p') \<and>
         storeUserInfo P ls c p u (auth_key c' p') = ls (auth_key c' p') \<and>
         storeUserInfo P ls c p u (userinfo_key c' p') = ls (userinfo_key c' p') \<and>
         clearAuthTokens ls c p (auth_key c' p') = ls (auth_key c' p') \<and>
         clearAuthTokens ls c p (userinfo_key c' p') = ls (userinfo_key c' p') \<and>
         clearUserInfo ls c p (auth_key c' p') = ls (auth_key c' p') \<and>
         clearUserInfo ls c p (userinfo_key c' p') = ls (userinfo_key c' p') \<and>
         clearAuthTokens ls c p (auth_key c p) = None \<and>
         clearAuthTokens ls c p (userinfo_key c p) = None"
  using other_keys [OF assms]
  by (simp add: storeAuthTokens_def storeUserInfo_def clearAuthTokens_def clearUserInfo_def)

theorem C9_identity_keys_independent_witness:
  "(''SG'', ''microsoft'') \<noteq> (''SG'', ''google'') \<and>
   clearAuthTokens (storage sample_world) ''SG'' ''microsoft'' (auth_key ''SG'' ''google'')
     = Some ''T'' \<and>
   clearAuthTokens (storage sample_world) ''SG'' ''microsoft'' (userinfo_key ''SG'' ''google'')
     = Some ''{'' \<and>
   clearAuthTokens (storage sample_world) ''SG'' ''microsoft'' (auth_key ''SG'' ''microsoft'')
     = None"
proof -
  have a: "''microsoft'' \<in> {''google'', ''microsoft''}" "''google'' \<in> {''google'', ''microsoft''}"
    "(''SG'', ''microsoft'') \<noteq> (''SG'', ''google'')"
    by simp_all
  have b: "storage sample_world (auth_key ''SG'' ''google'') = Some ''T''"
    "storage sample_world (userinfo_key ''SG'' ''google'') = Some ''{''"
    by (simp_all add: sample_world_def userinfo_key_def auth_key_def)
  from a(3) b C9_identity_keys_independent [OF a, of sample_platform "storage sample_world"]
  show ?thesis by simp
qed

section \<open>Expiry predicates\<close>

text \<open>
  Claim C10. At one and the same instant \<open>now\<close>, a token that is expired is also expiring
  soon. Both predicates are threshold comparisons on \<open>expiresAt\<close> alone: expired means
  \<open>expiresAt \<le> now\<close>, expiring soon means \<open>expiresAt \<le> now + 300000\<close>; at the boundary
  instant \<open>now = expiresAt\<close> the token counts as expired.
\<close>

theorem C10_expired_implies_expiring_soon:
  "(isTokenExpired now t \<longrightarrow> isTokenExpiringSoon now t) \<and>
   isTokenExpired now t = (expiresAt t \<le> now) \<and>
   isTokenExpiringSoon now t = (expiresAt t \<le> now + 300000) \<and>
   isTokenExpired (expiresAt t) t"
  by (simp add: isTokenExpired_def isTokenExpiringSoon_def)

theorem C10_expired_implies_expiring_soon_witness:
  "isTokenExpired 5000 sample_tokens \<and> isTokenExpiringSoon 5000 sample_tokens"
proof -
  have "isTokenExpired 5000 sample_tokens"
    by (simp add: isTokenExpired_def sample_tokens_def)
  with C10_expired_implies_expiring_soon [of 5000 sample_tokens] show ?thesis by simp
qed


section \<open>The token lifecycle\<close>

lemma refresh_request_fields:
  "refresh_request cid rt =
     \<lparr>url = ''https://login.microsoftonline.com/common/oauth2/v2.0/token'',
      meth = ''POST'',
      headers = [(''Content-Type'', ''application/x-www-form-urlencoded'')],
      payload = Form [(''client_id'', cid), (''grant_type'', ''refresh_token''),
                      (''refresh_token'', rt),
                      (''scope'', ''https://graph.microsoft.com/Mail.Send https://graph.microsoft.com/User.Read offline_access'')]\<rparr>"
  by (simp add: refresh_request_def microsoft_tokenUrl_def microsoft_scopes_def join_def)

lemma refresh_success:
  assumes "MICROSOFT_CLIENT_ID P = Some cid" "cid \<noteq> []"
    and "fetch P (length (sent w)) (refresh_request cid rt) = Inr resp"
    and "200 \<le> status resp" "status resp \<le> 299"
    and "response_json_tokens P (bodyText resp) = Inr data"
  shows "refreshMicrosoftToken P now w country rt =
           (Some (refreshed_tokens now rt data),
            w\<lparr>sent := sent w @ [refresh_request cid rt],
              storage := (storage w)(auth_key country ''microsoft'' \<mapsto>
                            JSON_stringify_tokens P (refreshed_tokens now rt data))\<rparr>)"
  using assms by (simp add: refreshMicrosoftToken_def truthy_def storeAuthTokens_def Let_def)

lemma refresh_fails_iff:
  "fst (refreshMicrosoftToken P now w country rt) = None \<longleftrightarrow>
     (\<not> truthy (MICROSOFT_CLIENT_ID P) \<or>
      (case fetch P (length (sent w)) (refresh_request (the (MICROSOFT_CLIENT_ID P)) rt) of
         Inl e \<Rightarrow> True
       | Inr resp \<Rightarrow> \<not> (200 \<le> status resp \<and> status resp \<le> 299) \<or>
                     isl (response_json_tokens P (bodyText resp))))"
  by (simp add: refreshMicrosoftToken_def Let_def split: sum.split)

lemma refresh_failure_storage:
  "fst (refreshMicrosoftToken P now w country rt) = None \<Longrightarrow>
     storage (snd (refreshMicrosoftToken P now w country rt)) = storage w"
  by (auto simp add: refreshMicrosoftToken_def Let_def split: sum.splits if_splits)

lemma gvat_absent:
  "getStoredAuthTokens P (storage w) country (provider_str provider) = Inr None \<Longrightarrow>
     getValidAccessToken P now now' w country provider = (Inr None, w)"
  by (simp add: getValidAccessToken_def)

lemma gvat_valid:
  "getStoredAuthTokens P (storage w) country (provider_str provider) = Inr (Some t) \<Longrightarrow>
   \<not> isTokenExpired now t \<Longrightarrow>
     getValidAccessToken P now now' w country provider = (Inr (Some (accessToken t)), w)"
  by (simp add: getValidAccessToken_def)

lemma gvat_refreshed:
  assumes "getStoredAuthTokens P (storage w) country (provider_str provider) = Inr (Some t)"
    and "isTokenExpired now t" "provider = Microsoft" "refreshToken t = Some rt" "rt \<noteq> []"
    and "MICROSOFT_CLIENT_ID P = Some cid" "cid \<noteq> []"
    and "fetch P (length (sent w)) (refresh_request cid rt) = Inr resp"
    and "200 \<le> status resp" "status resp \<le> 299"
    and "response_json_tokens P (bodyText resp) = Inr data"
  shows "getValidAccessToken P now now' w country provider =
           (Inr (Some (access_token data)),
            w\<lparr>sent := sent w @ [refresh_request cid rt],
              storage := (storage w)(auth_key country ''microsoft'' \<mapsto>
                 JSON_stringify_tokens P
                   \<lparr>accessToken = access_token data,
                    refreshToken = (if truthy (refresh_token data) then refresh_token data
                                    else Some rt),
                    expiresIn = expires_in data,
                    expiresAt = now' + expires_in data * 1000\<rparr>)\<rparr>)"
  using assms(1-5) refresh_success [OF assms(6-11), of now' country]
  by (simp add: getValidAccessToken_def truthy_def refreshed_tokens_def)

lemma gvat_refresh_failed:
  assumes "getStoredAuthTokens P (storage w) country (provider_str provider) = Inr (Some t)"
    and "isTokenExpired now t" "provider = Microsoft" "refreshToken t = Some rt" "rt \<noteq> []"
    and "fst (refreshMicrosoftToken P now' w country rt) = None"
  shows "fst (getValidAccessToken P now now' w country provider) = Inr None"
    and "storage (snd (getValidAccessToken P now now' w country provider)) =
           clearAuthTokens (storage w) country ''microsoft''"
  using assms refresh_failure_storage [OF assms(6)]
  by (auto simp add: getValidAccessToken_def truthy_def split: prod.splits option.splits)

lemma gvat_unrefreshable:
  "getStoredAuthTokens P (storage w) country (provider_str provider) = Inr (Some t) \<Longrightarrow>
   isTokenExpired now t \<Longrightarrow> provider = Google \<or> \<not> truthy (refreshToken t) \<Longrightarrow>
     getValidAccessToken P now now' w country provider =
       (Inr None, w\<lparr>storage := clearAuthTokens (storage w) country (provider_str provider)\<rparr>)"
  by (auto simp add: getValidAccessToken_def)

lemma clearAuthTokens_own_key:
  "clearAuthTokens ls c p (auth_key c p) = None" "clearAuthTokens ls c p (userinfo_key c p) = None"
  by (simp_all add: clearAuthTokens_def clearUserInfo_def)

text \<open>
  Claim C1. \<^verbatim>\<open>getValidAccessToken\<close> follows the specified algorithm, for every country,
  provider, store and platform behaviour:
  \<^enum> no stored tokens: the result is \<^verbatim>\<open>null\<close> and the world is unchanged;
  \<^enum> stored tokens that are not expired: the result is their access token, world unchanged;
  \<^enum> expired, Microsoft, a non-empty refresh token, and the refresh succeeds (client id
    configured, the request answered with a 2xx status and a parseable body): exactly one
    request is sent, a POST to the Microsoft token endpoint with the form fields
    \<open>client_id\<close>, \<open>grant_type = refresh_token\<close>, \<open>refresh_token\<close> (the stored one) and
    \<open>scope\<close> (the three Microsoft scopes joined by spaces); the new tokens are written
    under this identity's key, with the old refresh token kept when the response carries
    none, and the result is the new access token;
  \<^enum> expired, Microsoft, a non-empty refresh token, and the refresh fails: the result is
    \<^verbatim>\<open>null\<close> and both records of this identity are removed; the refresh fails exactly when
    the client id is missing, the request is rejected, the status is not 2xx or the body
    does not parse;
  \<^enum> expired and Google, or no (non-empty) refresh token: the result is \<^verbatim>\<open>null\<close>, both
    records of this identity are removed and no request is sent.

  The last conjuncts spell out what the statement's auxiliary notions are: the provider
  names, truthiness of an optional string, expiry, the two storage keys of an identity,
  and clearing as the removal of exactly those two keys.
\<close>

theorem C1_getValidAccessToken_algorithm:
  "(getStoredAuthTokens P (storage w) country (provider_str provider) = Inr None \<longrightarrow>
      getValidAccessToken P now now' w country provider = (Inr None, w)) \<and>
   (\<forall>t. getStoredAuthTokens P (storage w) country (provider_str provider) = Inr (Some t) \<and>
        \<not> isTokenExpired now t \<longrightarrow>
      getValidAccessToken P now now' w country provider = (Inr (Some (accessToken t)), w)) \<and>
   (\<forall>t rt cid resp data.
        getStoredAuthTokens P (storage w) country (provider_str provider) = Inr (Some t) \<and>
        isTokenExpired now t \<and> provider = Microsoft \<and> refreshToken t = Some rt \<and> rt \<noteq> [] \<and>
        MICROSOFT_CLIENT_ID P = Some cid \<and> cid \<noteq> [] \<and>
        fetch P (length (sent w))
          \<lparr>url = ''https://login.microsoftonline.com/common/oauth2/v2.0/token'',
           meth = ''POST'',
           headers = [(''Content-Type'', ''application/x-www-form-urlencoded'')],
           payload = Form [(''client_id'', cid), (''grant_type'', ''refresh_token''),
                           (''refresh_token'', rt),
                           (''scope'', ''https://graph.microsoft.com/Mail.Send https://graph.microsoft.com/User.Read offline_access'')]\<rparr>
          = Inr resp \<and>
        200 \<le> status resp \<and> status resp \<le> 299 \<and>
        response_json_tokens P (bodyText resp) = Inr data \<longrightarrow>
      getValidAccessToken P now now' w country provider =
        (Inr (Some (access_token data)),
         w\<lparr>sent := sent w @
             [\<lparr>url = ''https://login.microsoftonline.com/common/oauth2/v2.0/token'',
               meth = ''POST'',
               headers = [(''Content-Type'', ''application/x-www-form-urlencoded'')],
               payload = Form [(''client_id'', cid), (''grant_type'', ''refresh_token''),
                               (''refresh_token'', rt),
                               (''scope'', ''https://graph.microsoft.com/Mail.Send https://graph.microsoft.com/User.Read offline_access'')]\<rparr>],
           storage := (storage w)(auth_key country ''microsoft'' \<mapsto>
              JSON_stringify_tokens P
                \<lparr>accessToken = access_token data,
                 refreshToken = (if truthy (refresh_token data) then refresh_token data
                                 else Some rt),
                 expiresIn = expires_in data,
                 expiresAt = now' + expires_in data * 1000\<rparr>)\<rparr>)) \<and>
   (\<forall>t rt.
        getStoredAuthTokens P (storage w) country (provider_str provider) = Inr (Some t) \<and>
        isTokenExpired now t \<and> provider = Microsoft \<and> refreshToken t = Some rt \<and> rt \<noteq> [] \<and>
        fst (refreshMicrosoftToken P now' w country rt) = None \<longrightarrow>
      fst (getValidAccessToken P now now' w country provider) = Inr None \<and>
      storage (snd (getValidAccessToken P now now' w country provider)) =
        clearAuthTokens (storage w) country ''microsoft'' \<and>
      storage (snd (getValidAccessToken P now now' w country provider))
        (auth_key country ''microsoft'') = None \<and>
      storage (snd (getValidAccessToken P now now' w country provider))
        (userinfo_key country ''microsoft'') = None) \<and>
   (\<forall>rt. fst (refreshMicrosoftToken P now' w country rt) = None \<longleftrightarrow>
        (\<not> truthy (MICROSOFT_CLIENT_ID P) \<or>
         (case fetch P (length (sent w))
                 \<lparr>url = ''https://login.microsoftonline.com/common/oauth2/v2.0/token'',
                  meth = ''POST'',
                  headers = [(''Content-Type'', ''application/x-www-form-urlencoded'')],
                  payload = Form [(''client_id'', the (MICROSOFT_CLIENT_ID P)),
                                  (''grant_type'', ''refresh_token''),
                                  (''refresh_token'', rt),
                                  (''scope'', ''https://graph.microsoft.com/Mail.Send https://graph.microsoft.com/User.Read offline_access'')]\<rparr> of
            Inl e \<Rightarrow> True
          | Inr resp \<Rightarrow> \<not> (200 \<le> status resp \<and> status resp \<le> 299) \<or>
                        isl (response_json_tokens P (bodyText resp))))) \<and>
   (\<forall>t. getStoredAuthTokens P (storage w) country (provider_str provider) = Inr (Some t) \<and>
        isTokenExpired now t \<and> (provider = Google \<or> \<not> truthy (refreshToken t)) \<longrightarrow>
      getValidAccessToken P now now' w country provider =
        (Inr None, w\<lparr>storage := clearAuthTokens (storage w) country (provider_str provider)\<rparr>) \<and>
      clearAuthTokens (storage w) country (provider_str provider)
        (auth_key country (provider_str provider)) = None \<and>
      clearAuthTokens (storage w) country (provider_str provider)
        (userinfo_key country (provider_str provider)) = None) \<and>
   provider_str Google = ''google'' \<and> provider_str Microsoft = ''microsoft'' \<and>
   (\<forall>v. truthy v \<longleftrightarrow> (\<exists>s. v = Some s \<and> s \<noteq> [])) \<and>
   (\<forall>n tok. isTokenExpired n tok \<longleftrightarrow> expiresAt tok \<le> n) \<and>
   (\<forall>c pr. auth_key c pr = ''email_auth_'' @ c @ ''_'' @ pr) \<and>
   (\<forall>c pr. userinfo_key c pr = ''email_userinfo_'' @ c @ ''_'' @ pr) \<and>
   (\<forall>ls c pr. clearAuthTokens ls c pr =
      ls(''email_auth_'' @ c @ ''_'' @ pr := None, ''email_userinfo_'' @ c @ ''_'' @ pr := None))"
proof (intro conjI allI impI; (elim conjE)?)
  show "getValidAccessToken P now now' w country provider = (Inr None, w)"
    if "getStoredAuthTokens P (storage w) country (provider_str provider) = Inr None"
    using that by (rule gvat_absent)
next
  fix t
  show "getValidAccessToken P now now' w country provider = (Inr (Some (accessToken t)), w)"
    if "getStoredAuthTokens P (storage w) country (provider_str provider) = Inr (Some t)"
      "\<not> isTokenExpired now t"
    using that by (rule gvat_valid)
next
  show "provider_str Google = ''google''" by simp
next
  show "provider_str Microsoft = ''microsoft''" by simp
next
  fix v
  show "truthy v \<longleftrightarrow> (\<exists>s. v = Some s \<and> s \<noteq> [])"
    by (cases v) (simp_all add: truthy_def)
next
  fix n tok
  show "isTokenExpired n tok \<longleftrightarrow> expiresAt tok \<le> n"
    by (simp add: isTokenExpired_def)
next
  fix c pr
  show "auth_key c pr = ''email_auth_'' @ c @ ''_'' @ pr"
    by (simp add: auth_key_def)
next
  fix c pr
  show "userinfo_key c pr = ''email_userinfo_'' @ c @ ''_'' @ pr"
    by (simp add: userinfo_key_def)
next
  fix ls c pr
  show "clearAuthTokens ls c pr =
      ls(''email_auth_'' @ c @ ''_'' @ pr := None, ''email_userinfo_'' @ c @ ''_'' @ pr := None)"
    by (simp add: clearAuthTokens_def clearUserInfo_def auth_key_def userinfo_key_def)
qed (simp_all add: gvat_refreshed gvat_refresh_failed gvat_unrefreshable clearAuthTokens_own_key
       refresh_fails_iff flip: refresh_request_fields)


lemma sample_reads:
  "getStoredAuthTokens sample_platform (storage sample_world) ''MY'' ''google'' = Inr None"
  "getStoredAuthTokens sample_platform (storage sample_world) ''SG'' ''google''
     = Inr (Some sample_tokens)"
  "getStoredAuthTokens sample_platform (storage sample_world) ''SG'' ''microsoft''
     = Inr (Some sample_tokens)"
  "getStoredAuthTokens offline_platform (storage sample_world) ''SG'' ''microsoft''
     = Inr (Some sample_tokens)"
  by (simp_all add: getStoredAuthTokens_def sample_world_def sample_platform_def
        offline_platform_def auth_key_def userinfo_key_def try_catch_def)

theorem C1_getValidAccessToken_algorithm_witness:
  "getValidAccessToken sample_platform 1000 1000 sample_world ''MY'' Google
     = (Inr None, sample_world) \<and>
   getValidAccessToken sample_platform 1000 1000 sample_world ''SG'' Google
     = (Inr (Some ''A''), sample_world) \<and>
   getValidAccessToken sample_platform 6000 6001 sample_world ''SG'' Microsoft
     = (Inr (Some ''B''),
        sample_world\<lparr>sent := [\<lparr>url = ''https://login.microsoftonline.com/common/oauth2/v2.0/token'',
                   meth = ''POST'',
                   headers = [(''Content-Type'', ''application/x-www-form-urlencoded'')],
                   payload = Form [(''client_id'', ''m-client''),
                                   (''grant_type'', ''refresh_token''),
                                   (''refresh_token'', ''R''),
                                   (''scope'', ''https://graph.microsoft.com/Mail.Send https://graph.microsoft.com/User.Read offline_access'')]\<rparr>],
          storage := (storage sample_world)(auth_key ''SG'' ''microsoft'' \<mapsto> ''tok:B'')\<rparr>) \<and>
   fst (getValidAccessToken offline_platform 6000 6001 sample_world ''SG'' Microsoft)
     = Inr None \<and>
   storage (snd (getValidAccessToken offline_platform 6000 6001 sample_world ''SG'' Microsoft))
     (auth_key ''SG'' ''microsoft'') = None \<and>
   getValidAccessToken sample_platform 6000 6001 sample_world ''SG'' Google
     = (Inr None,
        sample_world\<lparr>storage := clearAuthTokens (storage sample_world) ''SG'' ''google''\<rparr>)"
proof -
  note C = C1_getValidAccessToken_algorithm
  have fresh: "\<not> isTokenExpired 1000 sample_tokens" and old: "isTokenExpired 6000 sample_tokens"
    and rt: "refreshToken sample_tokens = Some ''R''" "accessToken sample_tokens = ''A''"
    by (simp_all add: isTokenExpired_def sample_tokens_def)
  have 1: "getValidAccessToken sample_platform 1000 1000 sample_world ''MY'' Google
             = (Inr None, sample_world)"
    using C [where P = sample_platform and w = sample_world and country = "''MY''"
        and provider = Google and now = 1000 and now' = 1000] sample_reads(1)
    by simp
  have 2: "getValidAccessToken sample_platform 1000 1000 sample_world ''SG'' Google
             = (Inr (Some ''A''), sample_world)"
    using C [where P = sample_platform and w = sample_world and country = "''SG''"
        and provider = Google and now = 1000 and now' = 1000] sample_reads(2) fresh rt
    by simp
  have cid: "MICROSOFT_CLIENT_ID sample_platform = Some ''m-client''"
    and net: "\<And>req. fetch sample_platform (length (sent sample_world)) req
              = Inr \<lparr>status = 200, statusText = ''OK'', bodyText = ''{}''\<rparr>"
    and js: "response_json_tokens sample_platform ''{}''
              = Inr \<lparr>access_token = ''B'', refresh_token = None, expires_in = 3600\<rparr>"
    and str: "\<And>t. JSON_stringify_tokens sample_platform t = ''tok:'' @ accessToken t"
    by (simp_all add: sample_platform_def)
  have sw: "sent sample_world = []"
    by (simp add: sample_world_def)
  have 3: "getValidAccessToken sample_platform 6000 6001 sample_world ''SG'' Microsoft
     = (Inr (Some ''B''),
        sample_world\<lparr>sent := [\<lparr>url = ''https://login.microsoftonline.com/common/oauth2/v2.0/token'',
                   meth = ''POST'',
                   headers = [(''Content-Type'', ''application/x-www-form-urlencoded'')],
                   payload = Form [(''client_id'', ''m-client''),
                                   (''grant_type'', ''refresh_token''),
                                   (''refresh_token'', ''R''),
                                   (''scope'', ''https://graph.microsoft.com/Mail.Send https://graph.microsoft.com/User.Read offline_access'')]\<rparr>],
          storage := (storage sample_world)(auth_key ''SG'' ''microsoft'' \<mapsto> ''tok:B'')\<rparr>)"
    using C [where P = sample_platform and w = sample_world and country = "''SG''"
        and provider = Microsoft and now = 6000 and now' = 6001]
      sample_reads(3) old rt cid net js str sw
    by simp
  have off: "fst (refreshMicrosoftToken offline_platform 6001 sample_world ''SG'' ''R'') = None"
    by (simp add: refreshMicrosoftToken_def offline_platform_def sample_platform_def truthy_def
          Let_def)
  have 4: "fst (getValidAccessToken offline_platform 6000 6001 sample_world ''SG'' Microsoft)
     = Inr None \<and>
     storage (snd (getValidAccessToken offline_platform 6000 6001 sample_world ''SG'' Microsoft))
       (auth_key ''SG'' ''microsoft'') = None"
    using C [where P = offline_platform and w = sample_world and country = "''SG''"
        and provider = Microsoft and now = 6000 and now' = 6001]
      sample_reads(4) old rt off
    by (simp add: clearAuthTokens_own_key)
  have 5: "getValidAccessToken sample_platform 6000 6001 sample_world ''SG'' Google
     = (Inr None,
        sample_world\<lparr>storage := clearAuthTokens (storage sample_world) ''SG'' ''google''\<rparr>)"
    using C [where P = sample_platform and w = sample_world and country = "''SG''"
        and provider = Google and now = 6000 and now' = 6001] sample_reads(2) old
    by simp
  from 1 2 3 4 5 show ?thesis by simp
qed

section \<open>Base64 and the PKCE challenge\<close>

lemma index_of_nth: "distinct xs \<Longrightarrow> n < length xs \<Longrightarrow> index_of xs (xs ! n) = Some n"
proof (induction xs arbitrary: n)
  case Nil
  then show ?case by simp
next
  case (Cons x xs)
  show ?case
  proof (cases n)
    case 0
    then show ?thesis by simp
  next
    case (Suc k)
    with Cons.prems have "k < length xs" "xs ! k \<in> set xs" "x \<notin> set xs" "distinct xs" by auto
    with Cons.IH [of k] Suc show ?thesis by auto
  qed
qed

lemma b64url_alphabet_map:
  "b64url_alphabet = map (\<lambda>c. if c = CHR ''+'' then CHR ''-'' else if c = CHR ''/'' then CHR ''_'' else c) b64_alphabet"
  by (simp add: b64url_alphabet_def b64_alphabet_def)

lemma b64url_alphabet_distinct: "distinct b64url_alphabet"
  by (simp add: b64url_alphabet_def)

lemma b64_alphabet_length: "length b64_alphabet = 64" "length b64url_alphabet = 64"
  by (simp_all add: b64_alphabet_def b64url_alphabet_def)

lemma b64_alphabet_no_pad: "CHR ''='' \<notin> set b64_alphabet" "CHR ''='' \<notin> set b64url_alphabet"
  "CHR ''+'' \<notin> set b64url_alphabet" "CHR ''/'' \<notin> set b64url_alphabet"
  by (simp_all add: b64_alphabet_def b64url_alphabet_def)

lemma url_form_simps:
  "url_form [] = []"
  "url_form (CHR ''='' # cs) = url_form cs"
  "url_form (xs @ ys) = url_form xs @ url_form ys"
  by (simp_all add: url_form_def remove_all_def replace_all_def)

lemma url_form_b64:
  assumes "n < 64"
  shows "url_form (b64 n # cs) = (b64url_alphabet ! n) # url_form cs"
proof -
  from assms have mem: "b64 n \<in> set b64_alphabet" "b64url_alphabet ! n \<in> set b64url_alphabet"
    by (simp_all add: b64_def b64_alphabet_length)
  with b64_alphabet_no_pad have ne: "b64 n \<noteq> CHR ''=''" "b64url_alphabet ! n \<noteq> CHR ''=''" by auto
  from assms have "b64url_alphabet ! n = (\<lambda>c. if c = CHR ''+'' then CHR ''-'' else if c = CHR ''/'' then CHR ''_'' else c) (b64 n)"
    by (simp add: b64url_alphabet_map b64_def b64_alphabet_length)
  with ne show ?thesis
    by (auto simp add: url_form_def remove_all_def replace_all_def)
qed

lemma decode_url_b64:
  assumes "n < 64"
  shows "decode_chars (url_form (b64 n # cs)) = map_option ((#) n) (decode_chars (url_form cs))"
proof -
  from assms have "index_of b64url_alphabet (b64url_alphabet ! n) = Some n"
    by (simp add: index_of_nth b64url_alphabet_distinct b64_alphabet_length)
  then show ?thesis
    by (simp add: url_form_b64 [OF assms])
qed

lemma sextet_bounds:
  fixes a b c :: nat
  assumes "a < 256" "b < 256" "c < 256"
  shows "a div 4 < 64" "(a mod 4) * 16 + b div 16 < 64" "(b mod 16) * 4 + c div 64 < 64"
    "c mod 64 < 64" "(a mod 4) * 16 < 64" "(b mod 16) * 4 < 64"
  using assms by arith+

lemma sextet_join:
  fixes a b c :: nat
  assumes "b < 256" "c < 256"
  shows "a div 4 * 4 + ((a mod 4) * 16 + b div 16) div 16 = a"
    "(((a mod 4) * 16 + b div 16) mod 16) * 16 + ((b mod 16) * 4 + c div 64) div 4 = b"
    "(((b mod 16) * 4 + c div 64) mod 4) * 64 + c mod 64 = c"
    "a div 4 * 4 + ((a mod 4) * 16) div 16 = a"
    "(((a mod 4) * 16 + b div 16) mod 16) * 16 + ((b mod 16) * 4) div 4 = b"
proof -
  have hb: "b div 16 < 16" and hc: "c div 64 < 4"
    using assms by arith+
  show "a div 4 * 4 + ((a mod 4) * 16 + b div 16) div 16 = a"
    using hb by simp
  show "(((a mod 4) * 16 + b div 16) mod 16) * 16 + ((b mod 16) * 4 + c div 64) div 4 = b"
    using hb hc by simp
  show "(((b mod 16) * 4 + c div 64) mod 4) * 64 + c mod 64 = c"
    using hc by simp
  show "a div 4 * 4 + ((a mod 4) * 16) div 16 = a"
    by simp
  show "(((a mod 4) * 16 + b div 16) mod 16) * 16 + ((b mod 16) * 4) div 4 = b"
    using hb by simp
qed

lemma decode_btoa_bytes:
  "\<forall>b \<in> set bs. b < 256 \<Longrightarrow>
     map_option sextets_to_bytes (decode_chars (url_form (btoa_bytes bs))) = Some bs"
proof (induction bs rule: btoa_bytes.induct)
  case 1
  then show ?case by (simp add: url_form_simps)
next
  case (2 a)
  then have a: "a < 256" by simp
  define s1 s2 where "s1 = a div 4" and "s2 = (a mod 4) * 16"
  have lt: "s1 < 64" "s2 < 64"
    using sextet_bounds [OF a a a] by (simp_all add: s1_def s2_def)
  have "decode_chars (url_form (btoa_bytes [a])) = Some [s1, s2]"
    by (simp add: s1_def [symmetric] s2_def [symmetric] decode_url_b64 [OF lt(1)]
          decode_url_b64 [OF lt(2)] url_form_simps)
  moreover have "sextets_to_bytes [s1, s2] = [a]"
    using sextet_join(4) [OF a a] by (simp add: s1_def s2_def)
  ultimately show ?case by simp
next
  case (3 a b)
  then have a: "a < 256" and b: "b < 256" by simp_all
  define s1 s2 s3 where "s1 = a div 4" and "s2 = (a mod 4) * 16 + b div 16"
    and "s3 = (b mod 16) * 4"
  have lt: "s1 < 64" "s2 < 64" "s3 < 64"
    using sextet_bounds [OF a b b] by (simp_all add: s1_def s2_def s3_def)
  have "decode_chars (url_form (btoa_bytes [a, b])) = Some [s1, s2, s3]"
    by (simp add: s1_def [symmetric] s2_def [symmetric] s3_def [symmetric]
          decode_url_b64 [OF lt(1)] decode_url_b64 [OF lt(2)] decode_url_b64 [OF lt(3)]
          url_form_simps)
  moreover have "sextets_to_bytes [s1, s2, s3] = [a, b]"
    using sextet_join(1,5) [OF b b] by (simp add: s1_def s2_def s3_def)
  ultimately show ?case by simp
next
  case (4 a b c rest)
  then have a: "a < 256" and b: "b < 256" and c: "c < 256"
    and r: "\<forall>b \<in> set rest. b < 256" by simp_all
  from 4(1) [OF r] obtain vs where vs: "decode_chars (url_form (btoa_bytes rest)) = Some vs"
    "sextets_to_bytes vs = rest" by auto
  define s1 s2 s3 s4 where "s1 = a div 4" and "s2 = (a mod 4) * 16 + b div 16"
    and "s3 = (b mod 16) * 4 + c div 64" and "s4 = c mod 64"
  have lt: "s1 < 64" "s2 < 64" "s3 < 64" "s4 < 64"
    using sextet_bounds [OF a b c] by (simp_all add: s1_def s2_def s3_def s4_def)
  have "decode_chars (url_form (btoa_bytes (a # b # c # rest))) = Some (s1 # s2 # s3 # s4 # vs)"
    by (simp add: s1_def [symmetric] s2_def [symmetric] s3_def [symmetric] s4_def [symmetric]
          decode_url_b64 [OF lt(1)] decode_url_b64 [OF lt(2)] decode_url_b64 [OF lt(3)]
          decode_url_b64 [OF lt(4)] vs(1))
  moreover have "sextets_to_bytes (s1 # s2 # s3 # s4 # vs) = a # b # c # rest"
    using sextet_join(1,2,3) [OF b c] vs(2) by (simp add: s1_def s2_def s3_def s4_def)
  ultimately show ?case by simp
qed

lemma url_form_alphabet: "set (url_form (btoa_bytes bs)) \<subseteq> set b64url_alphabet"
  if "\<forall>b \<in> set bs. b < 256"
proof -
  have nth: "\<And>n. n < 64 \<Longrightarrow> b64url_alphabet ! n \<in> set b64url_alphabet"
    by (simp add: b64_alphabet_length)
  from that show ?thesis
  proof (induction bs rule: btoa_bytes.induct)
    case 1
    then show ?case by (simp add: url_form_simps)
  next
    case (2 a)
    then have a: "a < 256" by simp
    show ?case
      using sextet_bounds(1,5) [OF a a a]
      by (simp add: url_form_simps url_form_b64 nth)
  next
    case (3 a b)
    then have a: "a < 256" and b: "b < 256" by simp_all
    show ?case
      using sextet_bounds(1,2,6) [OF a b b]
      by (simp add: url_form_simps url_form_b64 nth)
  next
    case (4 a b c rest)
    then have a: "a < 256" and b: "b < 256" and c: "c < 256"
      and r: "\<forall>b \<in> set rest. b < 256" by simp_all
    show ?case
      using sextet_bounds(1,2,3,4) [OF a b c] 4(1) [OF r]
      by (simp add: url_form_b64 nth)
  qed
qed

lemma decode_url_btoa: "base64url_decode (url_form (btoa s)) = Some s"
proof -
  have "\<forall>b \<in> set (map of_char s). b < (256 :: nat)" by simp
  from decode_btoa_bytes [OF this] show ?thesis
    by (auto simp add: base64url_decode_def btoa_def comp_def)
qed


text \<open>The encoder and the decoder on the test vectors of RFC 4648 and on the two special characters.\<close>

lemma btoa_examples:
  "btoa ''f'' = ''Zg==''" "btoa ''fo'' = ''Zm8=''" "btoa ''foo'' = ''Zm9v''"
  "btoa ''foobar'' = ''Zm9vYmFy''" "btoa [CHR 0xFB, CHR 0xFF] = ''+/8=''"
  "url_form (btoa [CHR 0xFB, CHR 0xFF]) = ''-_8''"
  "base64url_decode ''-_8'' = Some [CHR 0xFB, CHR 0xFF]"
  "base64url_decode ''Zm8='' = None"
  by code_simp+

lemma strip_trailing_Cons:
  "x \<noteq> a \<Longrightarrow> strip_trailing a (x # xs) = x # strip_trailing a xs"
  by (simp add: strip_trailing_def dropWhile_append)

lemma strip_trailing_pads:
  "strip_trailing a [] = []" "strip_trailing a [a] = []" "strip_trailing a [a, a] = []"
  by (simp_all add: strip_trailing_def)

lemma xf_b64:
  assumes "n < 64"
  shows "replace_all (CHR ''/'') (CHR ''_'') (replace_all (CHR ''+'') (CHR ''-'') (b64 n # cs))
           = (b64url_alphabet ! n) #
             replace_all (CHR ''/'') (CHR ''_'') (replace_all (CHR ''+'') (CHR ''-'') cs)"
    and "b64url_alphabet ! n \<noteq> CHR ''=''"
proof -
  from assms have "b64url_alphabet ! n \<in> set b64url_alphabet"
    by (simp add: b64_alphabet_length)
  with b64_alphabet_no_pad show "b64url_alphabet ! n \<noteq> CHR ''=''" by auto
  from assms show "replace_all (CHR ''/'') (CHR ''_'')
      (replace_all (CHR ''+'') (CHR ''-'') (b64 n # cs))
           = (b64url_alphabet ! n) #
             replace_all (CHR ''/'') (CHR ''_'') (replace_all (CHR ''+'') (CHR ''-'') cs)"
    by (simp add: b64url_alphabet_map b64_def b64_alphabet_length replace_all_def)
qed

lemma strip_eq_url_form:
  "\<forall>b \<in> set bs. b < 256 \<Longrightarrow>
     strip_trailing (CHR ''='')
       (replace_all (CHR ''/'') (CHR ''_'') (replace_all (CHR ''+'') (CHR ''-'') (btoa_bytes bs)))
     = url_form (btoa_bytes bs)"
proof (induction bs rule: btoa_bytes.induct)
  case 1
  then show ?case by (simp add: url_form_simps strip_trailing_pads replace_all_def)
next
  case (2 a)
  then have a: "a < 256" by simp
  have pad: "replace_all (CHR ''/'') (CHR ''_'') (replace_all (CHR ''+'') (CHR ''-'') ''=='') = ''==''"
    by (simp add: replace_all_def)
  show ?case
    using sextet_bounds(1,5) [OF a a a]
    by (simp add: xf_b64 url_form_b64 url_form_simps strip_trailing_Cons strip_trailing_pads pad)
next
  case (3 a b)
  then have a: "a < 256" and b: "b < 256" by simp_all
  have pad: "replace_all (CHR ''/'') (CHR ''_'') (replace_all (CHR ''+'') (CHR ''-'') ''='') = ''=''"
    by (simp add: replace_all_def)
  show ?case
    using sextet_bounds(1,2,6) [OF a b b]
    by (simp add: xf_b64 url_form_b64 url_form_simps strip_trailing_Cons strip_trailing_pads pad)
next
  case (4 a b c rest)
  then have a: "a < 256" and b: "b < 256" and c: "c < 256"
    and r: "\<forall>b \<in> set rest. b < 256" by simp_all
  show ?case
    using sextet_bounds(1,2,3,4) [OF a b c] 4(1) [OF r]
    by (simp add: xf_b64 url_form_b64 strip_trailing_Cons)
qed

lemma encode_raw_url_form:
  assumes "unescape_encodeURIComponent P message = Inr binary"
  shows "encode_raw P message = Inr (url_form (btoa binary))"
proof -
  have "\<forall>b \<in> set (map of_char binary). b < (256 :: nat)" by simp
  from strip_eq_url_form [OF this] assms show ?thesis
    by (simp add: encode_raw_def btoa_def)
qed

lemma url_btoa_alphabet: "set (url_form (btoa s)) \<subseteq> set b64url_alphabet"
proof -
  have "\<forall>b \<in> set (map of_char s). b < (256 :: nat)" by simp
  from url_form_alphabet [OF this] show ?thesis
    by (simp add: btoa_def)
qed

subsection \<open>The random string\<close>




lemma random_loop_calls: "rand_calls (snd (random_loop P n result w)) = rand_calls w + n"
  by (induction n arbitrary: result w) simp_all



lemma url_form_no_specials:
  "CHR ''+'' \<notin> set (url_form s)" "CHR ''/'' \<notin> set (url_form s)" "CHR ''='' \<notin> set (url_form s)"
  by (auto simp add: url_form_def remove_all_def replace_all_def)



section \<open>Building the authorization URL\<close>

lemma random_loop_world:
  "snd (random_loop P n result w) = w\<lparr>rand_calls := rand_calls w + n\<rparr>"
  by (induction n arbitrary: result w) simp_all

lemma generatePKCEChallenge_world:
  "snd (generatePKCEChallenge P w) = w\<lparr>rand_calls := rand_calls w + 128\<rparr>"
  using random_loop_world [of P 128 "[]" w]
  by (auto simp add: generatePKCEChallenge_def generateRandomString_def split: prod.split)

lemma getAuthUrl_unconfigured:
  assumes "clientId P (mgr_provider m) = [] \<or> str_includes (clientId P (mgr_provider m)) ''your-''"
  shows "getAuthUrl P now w m st = (Inl (config_error (mgr_provider m)), m, w)"
  using assms by (auto simp add: getAuthUrl_def Let_def)

lemma getAuthUrl_configured:
  assumes "\<not> (clientId P (mgr_provider m) = [] \<or> str_includes (clientId P (mgr_provider m)) ''your-'')"
  shows "\<exists>u. getAuthUrl P now w m st =
           (Inr u, m\<lparr>pkceChallenge := Some (fst (generatePKCEChallenge P w))\<rparr>,
            w\<lparr>rand_calls := rand_calls w + 128\<rparr>)"
proof -
  have p: "mgr_provider m = Microsoft \<or> mgr_provider m = Google"
    by (cases "mgr_provider m") simp_all
  obtain ch w1 where g: "generatePKCEChallenge P w = (ch, w1)"
    by (cases "generatePKCEChallenge P w")
  with generatePKCEChallenge_world [of P w] have w1: "w1 = w\<lparr>rand_calls := rand_calls w + 128\<rparr>"
    by simp
  from assms p g w1 show ?thesis
    by (simp add: getAuthUrl_def Let_def)
qed

text \<open>
  Claim C3. When the configured client id of the manager's provider is empty (the
  environment variable is unset or empty) or contains the placeholder \<open>your-\<close>,
  \<^verbatim>\<open>getAuthUrl\<close> throws the configuration error and leaves the manager and the world as
  they were: no PKCE verifier is stored and the count of \<^verbatim>\<open>Math.random\<close> calls is
  unchanged. (On the other path the count grows by 128.)
\<close>

theorem C3_config_error_before_randomness:
  "(clientId P (mgr_provider m) = [] \<or> str_includes (clientId P (mgr_provider m)) ''your-'' \<longrightarrow>
      getAuthUrl P now w m st = (Inl (config_error (mgr_provider m)), m, w) \<and>
      rand_calls (snd (snd (getAuthUrl P now w m st))) = rand_calls w \<and>
      pkceChallenge (fst (snd (getAuthUrl P now w m st))) = pkceChallenge m) \<and>
   (\<not> (clientId P (mgr_provider m) = [] \<or> str_includes (clientId P (mgr_provider m)) ''your-'') \<longrightarrow>
      rand_calls (snd (snd (getAuthUrl P now w m st))) = rand_calls w + 128)"
proof (intro conjI impI)
  assume a: "\<not> (clientId P (mgr_provider m) = [] \<or>
                 str_includes (clientId P (mgr_provider m)) ''your-'')"
  from getAuthUrl_configured [OF a, of now w st]
  show "rand_calls (snd (snd (getAuthUrl P now w m st))) = rand_calls w + 128"
    by auto
qed (simp_all add: getAuthUrl_unconfigured)

theorem C3_config_error_before_randomness_witness:
  "clientId unconfigured_platform Microsoft = [] \<and>
   str_includes (clientId unconfigured_platform Google) ''your-'' \<and>
   getAuthUrl unconfigured_platform 0 sample_world (createOAuthManager Microsoft) None
     = (Inl (Error ''microsoft OAuth client ID is not properly configured. Please check your environment variables.''),
        createOAuthManager Microsoft, sample_world) \<and>
   getAuthUrl unconfigured_platform 0 sample_world (createOAuthManager Google) None
     = (Inl (Error ''google OAuth client ID is not properly configured. Please check your environment variables.''),
        createOAuthManager Google, sample_world) \<and>
   rand_calls (snd (snd (getAuthUrl sample_platform 0 sample_world (createOAuthManager Google)
      None))) = 128"
proof -
  have a: "clientId unconfigured_platform Microsoft = []"
    by (simp add: unconfigured_platform_def sample_platform_def or_empty_def)
  have g: "clientId unconfigured_platform Google = ''your-google-client-id''"
    by (simp add: unconfigured_platform_def sample_platform_def or_empty_def)
  have b: "str_includes (clientId unconfigured_platform Google) ''your-''"
    unfolding g by code_simp
  have s: "clientId sample_platform Google = ''g-client''"
    by (simp add: sample_platform_def or_empty_def)
  have c: "\<not> (clientId sample_platform Google = [] \<or>
              str_includes (clientId sample_platform Google) ''your-'')"
    unfolding s by code_simp
  have r: "rand_calls sample_world = 0"
    by (simp add: sample_world_def)
  from a b c r
    C3_config_error_before_randomness [of unconfigured_platform "createOAuthManager Microsoft"
      0 sample_world None]
    C3_config_error_before_randomness [of unconfigured_platform "createOAuthManager Google"
      0 sample_world None]
    C3_config_error_before_randomness [of sample_platform "createOAuthManager Google"
      0 sample_world None]
  show ?thesis
    by (simp add: createOAuthManager_def config_error_def)
qed

section \<open>The PKCE challenge on the manager\<close>

lemma exchange_without_challenge:
  "pkceChallenge m = None \<Longrightarrow> exchangeCodeForTokens P now w m code = (Inl missing_challenge, w)"
  by (simp add: exchangeCodeForTokens_def)

lemma exchange_with_challenge:
  "pkceChallenge m = Some ch \<Longrightarrow>
     exchangeCodeForTokens P now w m code =
       (try_catch (exchange_response P now
                     (fetch P (length (sent w))
                        (exchange_request P (mgr_provider m) code (codeVerifier ch))))
          exchange_catch,
        w\<lparr>sent := sent w @ [exchange_request P (mgr_provider m) code (codeVerifier ch)]\<rparr>)"
  by (simp add: exchangeCodeForTokens_def Let_def)

lemma getAuthUrl_manager:
  "getAuthUrl P now w m st = (Inr u, m', w') \<Longrightarrow>
     m' = m\<lparr>pkceChallenge := Some (fst (generatePKCEChallenge P w))\<rparr>"
  "getAuthUrl P now w m st = (Inl e, m', w') \<Longrightarrow> m' = m \<and> w' = w"
proof -
  have p: "mgr_provider m = Microsoft \<or> mgr_provider m = Google"
    by (cases "mgr_provider m") simp_all
  show "getAuthUrl P now w m st = (Inr u, m', w') \<Longrightarrow>
     m' = m\<lparr>pkceChallenge := Some (fst (generatePKCEChallenge P w))\<rparr>"
    using p by (auto simp add: getAuthUrl_def Let_def split: if_splits prod.splits)
  show "getAuthUrl P now w m st = (Inl e, m', w') \<Longrightarrow> m' = m \<and> w' = w"
    using p by (auto simp add: getAuthUrl_def Let_def split: if_splits prod.splits)
qed

lemma sample_configured:
  "\<not> (clientId sample_platform (mgr_provider (createOAuthManager Google)) = [] \<or>
      str_includes (clientId sample_platform (mgr_provider (createOAuthManager Google))) ''your-'')"
proof -
  have s: "clientId sample_platform Google = ''g-client''"
    by (simp add: sample_platform_def or_empty_def)
  show ?thesis
    unfolding createOAuthManager_def manager.simps s by code_simp
qed

lemma sample_getAuthUrl:
  "snd (getAuthUrl sample_platform now sample_world (createOAuthManager Google) st) =
     ((createOAuthManager Google)
        \<lparr>pkceChallenge := Some (fst (generatePKCEChallenge sample_platform sample_world))\<rparr>,
      sample_world\<lparr>rand_calls := rand_calls sample_world + 128\<rparr>)"
  using getAuthUrl_configured [OF sample_configured, of now sample_world st]
  by auto

lemma exchange_request_fields:
  "exchange_request P p code verifier =
     \<lparr>url = (case p of
              Google \<Rightarrow> ''https://oauth2.googleapis.com/token''
            | Microsoft \<Rightarrow> ''https://login.microsoftonline.com/common/oauth2/v2.0/token''),
      meth = ''POST'',
      headers = [(''Content-Type'', ''application/x-www-form-urlencoded''),
                 (''Accept'', ''application/json'')],
      payload = Form [(''client_id'',
                         case p of
                           Google \<Rightarrow> (case GOOGLE_CLIENT_ID P of None \<Rightarrow> [] | Some s \<Rightarrow> s)
                         | Microsoft \<Rightarrow> (case MICROSOFT_CLIENT_ID P of None \<Rightarrow> [] | Some s \<Rightarrow> s)),
                      (''code'', code),
                      (''grant_type'', ''authorization_code''),
                      (''redirect_uri'', location_origin P @ ''/auth/callback''),
                      (''code_verifier'', verifier)]\<rparr>"
  by (cases p)
    (simp_all add: exchange_request_def or_empty_def redirectUri_def microsoft_tokenUrl_def)

text \<open>
  Claim C2, as the code has it. A new manager holds no challenge; \<^verbatim>\<open>getAuthUrl\<close>, when it
  succeeds, stores a freshly generated challenge on the manager (and leaves the manager
  alone when it throws). \<^verbatim>\<open>exchangeCodeForTokens\<close> on a manager without a challenge throws
  the missing-challenge error and sends nothing (the world is unchanged); on a manager
  with a challenge it sends exactly one token request: a POST to the provider's token
  endpoint whose form carries the client id, the code, \<open>grant_type = authorization_code\<close>,
  the redirect URI, and as \<open>code_verifier\<close> the verifier of that challenge. The exchange
  does not clear the challenge: the manager is not changed by it, so each later exchange
  on the same manager sends a request with the same \<open>code_verifier\<close>.
\<close>

theorem C2_challenge_lifecycle:
  "pkceChallenge (createOAuthManager p) = None \<and> mgr_provider (createOAuthManager p) = p \<and>
   (\<forall>u m' w'. getAuthUrl P now w m st = (Inr u, m', w') \<longrightarrow>
       pkceChallenge m' = Some (fst (generatePKCEChallenge P w))) \<and>
   (\<forall>e m' w'. getAuthUrl P now w m st = (Inl e, m', w') \<longrightarrow> m' = m) \<and>
   (pkceChallenge m = None \<longrightarrow>
       exchangeCodeForTokens P now w m code =
         (Inl (Error ''PKCE challenge not found. Make sure to call getAuthUrl first.''), w)) \<and>
   (\<forall>ch. pkceChallenge m = Some ch \<longrightarrow>
       snd (exchangeCodeForTokens P now w m code) =
         w\<lparr>sent := sent w @
             [\<lparr>url = (case mgr_provider m of
                       Google \<Rightarrow> ''https://oauth2.googleapis.com/token''
                     | Microsoft \<Rightarrow> ''https://login.microsoftonline.com/common/oauth2/v2.0/token''),
               meth = ''POST'',
               headers = [(''Content-Type'', ''application/x-www-form-urlencoded''),
                          (''Accept'', ''application/json'')],
               payload = Form [(''client_id'',
                                  case mgr_provider m of
                                    Google \<Rightarrow> (case GOOGLE_CLIENT_ID P of None \<Rightarrow> [] | Some s \<Rightarrow> s)
                                  | Microsoft \<Rightarrow> (case MICROSOFT_CLIENT_ID P of None \<Rightarrow> [] | Some s \<Rightarrow> s)),
                               (''code'', code),
                               (''grant_type'', ''authorization_code''),
                               (''redirect_uri'', location_origin P @ ''/auth/callback''),
                               (''code_verifier'', codeVerifier ch)]\<rparr>]\<rparr> \<and>
       (\<forall>now' code'.
          snd (exchangeCodeForTokens P now' (snd (exchangeCodeForTokens P now w m code)) m code') =
            w\<lparr>sent := sent w @
                [\<lparr>url = (case mgr_provider m of
                          Google \<Rightarrow> ''https://oauth2.googleapis.com/token''
                        | Microsoft \<Rightarrow> ''https://login.microsoftonline.com/common/oauth2/v2.0/token''),
                  meth = ''POST'',
                  headers = [(''Content-Type'', ''application/x-www-form-urlencoded''),
                             (''Accept'', ''application/json'')],
                  payload = Form [(''client_id'',
                                     case mgr_provider m of
                                       Google \<Rightarrow> (case GOOGLE_CLIENT_ID P of None \<Rightarrow> [] | Some s \<Rightarrow> s)
                                     | Microsoft \<Rightarrow> (case MICROSOFT_CLIENT_ID P of None \<Rightarrow> [] | Some s \<Rightarrow> s)),
                                  (''code'', code),
                                  (''grant_type'', ''authorization_code''),
                                  (''redirect_uri'', location_origin P @ ''/auth/callback''),
                                  (''code_verifier'', codeVerifier ch)]\<rparr>,
                 \<lparr>url = (case mgr_provider m of
                          Google \<Rightarrow> ''https://oauth2.googleapis.com/token''
                        | Microsoft \<Rightarrow> ''https://login.microsoftonline.com/common/oauth2/v2.0/token''),
                  meth = ''POST'',
                  headers = [(''Content-Type'', ''application/x-www-form-urlencoded''),
                             (''Accept'', ''application/json'')],
                  payload = Form [(''client_id'',
                                     case mgr_provider m of
                                       Google \<Rightarrow> (case GOOGLE_CLIENT_ID P of None \<Rightarrow> [] | Some s \<Rightarrow> s)
                                     | Microsoft \<Rightarrow> (case MICROSOFT_CLIENT_ID P of None \<Rightarrow> [] | Some s \<Rightarrow> s)),
                                  (''code'', code'),
                                  (''grant_type'', ''authorization_code''),
                                  (''redirect_uri'', location_origin P @ ''/auth/callback''),
                                  (''code_verifier'', codeVerifier ch)]\<rparr>]\<rparr>))"
proof (intro conjI allI impI)
  show "pkceChallenge (createOAuthManager p) = None"
    by (simp add: createOAuthManager_def)
next
  show "mgr_provider (createOAuthManager p) = p"
    by (simp add: createOAuthManager_def)
next
  fix u m' w'
  assume "getAuthUrl P now w m st = (Inr u, m', w')"
  from getAuthUrl_manager(1) [OF this]
  show "pkceChallenge m' = Some (fst (generatePKCEChallenge P w))" by simp
next
  fix e m' w'
  assume "getAuthUrl P now w m st = (Inl e, m', w')"
  from getAuthUrl_manager(2) [OF this] show "m' = m" by simp
qed (simp_all add: exchange_without_challenge exchange_with_challenge missing_challenge_def
       flip: exchange_request_fields)

theorem C2_challenge_lifecycle_witness:
  "pkceChallenge (createOAuthManager Google) = None \<and>
   exchangeCodeForTokens sample_platform 0 sample_world (createOAuthManager Google) ''code-1''
     = (Inl (Error ''PKCE challenge not found. Make sure to call getAuthUrl first.''),
        sample_world) \<and>
   pkceChallenge sample_manager = Some (fst (generatePKCEChallenge sample_platform sample_world)) \<and>
   sent (snd (exchangeCodeForTokens sample_platform 1 world_after_url sample_manager ''code-1''))
     = [\<lparr>url = ''https://oauth2.googleapis.com/token'', meth = ''POST'',
         headers = [(''Content-Type'', ''application/x-www-form-urlencoded''),
                    (''Accept'', ''application/json'')],
         payload = Form [(''client_id'', ''g-client''), (''code'', ''code-1''),
                         (''grant_type'', ''authorization_code''),
                         (''redirect_uri'', ''https://app.example.org/auth/callback''),
                         (''code_verifier'',
                          codeVerifier (fst (generatePKCEChallenge sample_platform sample_world)))]\<rparr>]"
proof -
  have m: "sample_manager =
      \<lparr>mgr_provider = Google,
       pkceChallenge = Some (fst (generatePKCEChallenge sample_platform sample_world))\<rparr>"
    and w0: "world_after_url = sample_world\<lparr>rand_calls := 128\<rparr>"
    using sample_getAuthUrl
    by (simp_all add: sample_manager_def world_after_url_def createOAuthManager_def
          sample_world_def)
  have env: "GOOGLE_CLIENT_ID sample_platform = Some ''g-client''"
    "location_origin sample_platform = ''https://app.example.org''"
    by (simp_all add: sample_platform_def)
  have "sent (snd (exchangeCodeForTokens sample_platform 1 world_after_url sample_manager
      ''code-1''))
     = [\<lparr>url = ''https://oauth2.googleapis.com/token'', meth = ''POST'',
         headers = [(''Content-Type'', ''application/x-www-form-urlencoded''),
                    (''Accept'', ''application/json'')],
         payload = Form [(''client_id'', ''g-client''), (''code'', ''code-1''),
                         (''grant_type'', ''authorization_code''),
                         (''redirect_uri'', ''https://app.example.org/auth/callback''),
                         (''code_verifier'',
                          codeVerifier (fst (generatePKCEChallenge sample_platform sample_world)))]\<rparr>]"
    using C2_challenge_lifecycle [of Google sample_platform 1 world_after_url sample_manager
        None "''code-1''"]
    by (simp add: m w0 env sample_world_def)
  moreover have "pkceChallenge (createOAuthManager Google) = None \<and>
     exchangeCodeForTokens sample_platform 0 sample_world (createOAuthManager Google) ''code-1''
       = (Inl (Error ''PKCE challenge not found. Make sure to call getAuthUrl first.''),
          sample_world)"
    using C2_challenge_lifecycle [of Google sample_platform 0 sample_world
        "createOAuthManager Google" None "''code-1''"]
    by simp
  ultimately show ?thesis by (simp add: m)
qed

text \<open>
  The claim as stated fails: after one \<^verbatim>\<open>getAuthUrl\<close>, two exchanges on the same manager
  both go out to the token endpoint with the same verifier, and both succeed on the
  sample platform; the second one does not fail with the missing-challenge error.
\<close>

theorem C2_consumed_once_counterexample:
  "pkceChallenge sample_manager = Some (fst (generatePKCEChallenge sample_platform sample_world)) \<and>
   fst (exchangeCodeForTokens sample_platform 1 world_after_url sample_manager ''code-1'')
     = Inr \<lparr>accessToken = ''B'', refreshToken = None, expiresIn = 3600, expiresAt = 3600001\<rparr> \<and>
   fst (exchangeCodeForTokens sample_platform 2 world_after_first sample_manager ''code-2'')
     = Inr \<lparr>accessToken = ''B'', refreshToken = None, expiresIn = 3600, expiresAt = 3600002\<rparr> \<and>
   fst (exchangeCodeForTokens sample_platform 2 world_after_first sample_manager ''code-2'')
     \<noteq> Inl (Error ''PKCE challenge not found. Make sure to call getAuthUrl first.'') \<and>
   sent (snd (exchangeCodeForTokens sample_platform 2 world_after_first sample_manager ''code-2''))
     = [\<lparr>url = ''https://oauth2.googleapis.com/token'', meth = ''POST'',
         headers = [(''Content-Type'', ''application/x-www-form-urlencoded''),
                    (''Accept'', ''application/json'')],
         payload = Form [(''client_id'', ''g-client''), (''code'', ''code-1''),
                         (''grant_type'', ''authorization_code''),
                         (''redirect_uri'', ''https://app.example.org/auth/callback''),
                         (''code_verifier'',
                          codeVerifier (fst (generatePKCEChallenge sample_platform sample_world)))]\<rparr>,
        \<lparr>url = ''https://oauth2.googleapis.com/token'', meth = ''POST'',
         headers = [(''Content-Type'', ''application/x-www-form-urlencoded''),
                    (''Accept'', ''application/json'')],
         payload = Form [(''client_id'', ''g-client''), (''code'', ''code-2''),
                         (''grant_type'', ''authorization_code''),
                         (''redirect_uri'', ''https://app.example.org/auth/callback''),
                         (''code_verifier'',
                          codeVerifier (fst (generatePKCEChallenge sample_platform sample_world)))]\<rparr>]"
proof -
  have m: "sample_manager =
      \<lparr>mgr_provider = Google,
       pkceChallenge = Some (fst (generatePKCEChallenge sample_platform sample_world))\<rparr>"
    and w0: "world_after_url = sample_world\<lparr>rand_calls := 128\<rparr>"
    using sample_getAuthUrl
    by (simp_all add: sample_manager_def world_after_url_def createOAuthManager_def
          sample_world_def)
  have net: "\<And>n req. fetch sample_platform n req
               = Inr \<lparr>status = 200, statusText = ''OK'', bodyText = ''{}''\<rparr>"
    and js: "\<And>x. response_json_tokens sample_platform x
               = Inr \<lparr>access_token = ''B'', refresh_token = None, expires_in = 3600\<rparr>"
    and env: "GOOGLE_CLIENT_ID sample_platform = Some ''g-client''"
      "location_origin sample_platform = ''https://app.example.org''"
    by (simp_all add: sample_platform_def)
  show ?thesis
    unfolding world_after_first_def
    by (simp add: m w0 exchange_with_challenge net js exchange_response_def
          ok_def try_catch_def sample_world_def exchange_request_fields env)
qed

section \<open>The Gmail message\<close>

lemma foldl_append_parts:
  "foldl (\<lambda>msg att. msg @ f att) message atts = message @ concat (map f atts)"
  by (induction atts arbitrary: message) simp_all

lemma multipart_head_text:
  "multipart_head B d =
     ascii ''To: '' @ join (ascii '', '') (mail_to d) @ nl @ ascii ''Subject: '' @ subject d @ nl @
     ascii ''MIME-Version: 1.0'' @ nl @
     ascii ''Content-Type: multipart/mixed; boundary='' @ dq @ B @ dq @ nl @ nl @
     ascii ''--'' @ B @ nl @ ascii ''Content-Type: text/html; charset=utf-8'' @ nl @ nl @
     body_html d @ nl"
  by (simp add: multipart_head_def join_def)

lemma attachment_part_text:
  "attachment_part B =
     (\<lambda>a. ascii ''--'' @ B @ nl @ ascii ''Content-Type: '' @ contentType a @ nl @
          ascii ''Content-Disposition: attachment; filename='' @ dq @ filename a @ dq @ nl @
          ascii ''Content-Transfer-Encoding: base64'' @ nl @ nl @ content a @ nl)"
  by (rule ext) (simp add: attachment_part_def join_def)

lemma gmail_message_multipart:
  assumes "attachments d = Some atts" "atts \<noteq> []"
  shows "gmail_message P w d =
           (multipart_head (make_boundary P w) d @
            concat (map (attachment_part (make_boundary P w)) atts) @
            ascii ''--'' @ make_boundary P w @ ascii ''--'',
            w\<lparr>rand_calls := Suc (rand_calls w)\<rparr>)"
proof -
  from assms(2) obtain a as where "atts = a # as" by (cases atts) auto
  with assms(1) show ?thesis
    by (simp add: gmail_message_def Let_def foldl_append_parts)
qed

lemma subject_in_message:
  assumes "attachments d = Some atts" "atts \<noteq> []"
  shows "set (subject d) \<subseteq> set (fst (gmail_message P w d))"
  unfolding gmail_message_multipart [OF assms] fst_conv multipart_head_text by auto

lemma gmail_message_world:
  "sent (snd (gmail_message P w d)) = sent w"
  by (simp add: gmail_message_def Let_def split: option.split list.split)

lemma sendGmailEmail_posts:
  assumes "unescape_encodeURIComponent P (fst (gmail_message P w d)) = Inr binary"
  shows "sent (snd (sendGmailEmail P w tok d)) =
           sent w @
           [\<lparr>url = ''https://gmail.googleapis.com/gmail/v1/users/me/messages/send'',
             meth = ''POST'',
             headers = [(''Authorization'', ''Bearer '' @ tok),
                        (''Content-Type'', ''application/json'')],
             payload = Json [(''raw'', url_form (btoa binary))]\<rparr>]"
proof -
  obtain message w1 where g: "gmail_message P w d = (message, w1)"
    by (cases "gmail_message P w d")
  with gmail_message_world [of P w d] have "sent w1 = sent w" by simp
  moreover from g assms have "encode_raw P message = Inr (url_form (btoa binary))"
    by (simp add: encode_raw_url_form)
  ultimately show ?thesis
    using g by (simp add: sendGmailEmail_def gmail_request_def Let_def)
qed

lemma sendGmailEmail_throws:
  assumes "unescape_encodeURIComponent P (fst (gmail_message P w d)) = Inl e"
  shows "fst (sendGmailEmail P w tok d) = Inl e"
    and "sent (snd (sendGmailEmail P w tok d)) = sent w"
proof -
  obtain message w1 where g: "gmail_message P w d = (message, w1)"
    by (cases "gmail_message P w d")
  with gmail_message_world [of P w d] have w1: "sent w1 = sent w" by simp
  from g assms have "encode_raw P message = Inl e"
    by (simp add: encode_raw_def)
  with g w1 show "fst (sendGmailEmail P w tok d) = Inl e"
    and "sent (snd (sendGmailEmail P w tok d)) = sent w"
    by (simp_all add: sendGmailEmail_def)
qed

text \<open>
  Claim C7. For a Gmail send with a non-empty attachment list, the message text is: the
  headers (naming the boundary \<open>B\<close>), then \<open>--B\<close> on its own line before the body part, then
  for each attachment, in order, \<open>--B\<close> on its own line immediately followed by that
  attachment's part, then the closing marker \<open>--B--\<close>; \<open>B\<close> is the one boundary string
  generated for this send, \<open>boundary_\<close> followed by up to nine characters of the base-36
  text of one random number. When the message can be encoded, exactly one request is sent:
  a POST to the Gmail send endpoint with the bearer token, whose body is the JSON object
  with the single field \<open>raw\<close>; every character of that field is in the RFC 4648 section 5
  alphabet, with no \<open>+\<close>, no \<open>/\<close>, no \<open>=\<close> anywhere (so none at the end), and decoding it as
  unpadded base64url gives the UTF-8 bytes of the message. When \<^verbatim>\<open>encodeURIComponent\<close>
  throws, the send throws that error and nothing is posted.
\<close>

theorem C7_gmail_multipart_and_base64url:
  assumes "attachments d = Some atts" "atts \<noteq> []"
  shows "fst (gmail_message P w d) =
           ascii ''To: '' @ join (ascii '', '') (mail_to d) @ nl @
           ascii ''Subject: '' @ subject d @ nl @
           ascii ''MIME-Version: 1.0'' @ nl @
           ascii ''Content-Type: multipart/mixed; boundary='' @ dq @ make_boundary P w @ dq @
             nl @ nl @
           ascii ''--'' @ make_boundary P w @ nl @
           ascii ''Content-Type: text/html; charset=utf-8'' @ nl @ nl @ body_html d @ nl @
           concat (map (\<lambda>a. ascii ''--'' @ make_boundary P w @ nl @
                             ascii ''Content-Type: '' @ contentType a @ nl @
                             ascii ''Content-Disposition: attachment; filename='' @ dq @
                               filename a @ dq @ nl @
                             ascii ''Content-Transfer-Encoding: base64'' @ nl @ nl @
                             content a @ nl)
                     atts) @
           ascii ''--'' @ make_boundary P w @ ascii ''--'' \<and>
         make_boundary P w =
           map of_char (''boundary_'' @
                        take 9 (drop 2 (Number_toString36 P (Math_random P (rand_calls w))))) \<and>
         nl = [10] \<and> dq = [34] \<and> (\<forall>lit. ascii lit = map of_char lit) \<and>
         (\<forall>sep :: jstext. join sep [] = []) \<and>
         (\<forall>(sep :: jstext) x xs. join sep (x # xs) = x @ concat (map (\<lambda>z. sep @ z) xs)) \<and>
         b64url_alphabet =
           ''ABCDEFGHIJKLMNOPQRSTUVWXYZabcdefghijklmnopqrstuvwxyz0123456789-_'' \<and>
         (\<forall>binary. unescape_encodeURIComponent P (fst (gmail_message P w d)) = Inr binary \<longrightarrow>
            (\<exists>raw. sent (snd (sendGmailEmail P w tok d)) =
                     sent w @
                     [\<lparr>url = ''https://gmail.googleapis.com/gmail/v1/users/me/messages/send'',
                       meth = ''POST'',
                       headers = [(''Authorization'', ''Bearer '' @ tok),
                                  (''Content-Type'', ''application/json'')],
                       payload = Json [(''raw'', raw)]\<rparr>] \<and>
                   set raw \<subseteq> set b64url_alphabet \<and>
                   CHR ''+'' \<notin> set raw \<and> CHR ''/'' \<notin> set raw \<and> CHR ''='' \<notin> set raw \<and>
                   base64url_decode raw = Some binary)) \<and>
         (\<forall>e. unescape_encodeURIComponent P (fst (gmail_message P w d)) = Inl e \<longrightarrow>
            fst (sendGmailEmail P w tok d) = Inl e \<and>
            sent (snd (sendGmailEmail P w tok d)) = sent w)"
proof -
  have "fst (gmail_message P w d) =
          multipart_head (make_boundary P w) d @
          concat (map (attachment_part (make_boundary P w)) atts) @
          ascii ''--'' @ make_boundary P w @ ascii ''--''"
    by (simp add: gmail_message_multipart [OF assms])
  then have msg: "fst (gmail_message P w d) =
           ascii ''To: '' @ join (ascii '', '') (mail_to d) @ nl @
           ascii ''Subject: '' @ subject d @ nl @
           ascii ''MIME-Version: 1.0'' @ nl @
           ascii ''Content-Type: multipart/mixed; boundary='' @ dq @ make_boundary P w @ dq @
             nl @ nl @
           ascii ''--'' @ make_boundary P w @ nl @
           ascii ''Content-Type: text/html; charset=utf-8'' @ nl @ nl @ body_html d @ nl @
           concat (map (\<lambda>a. ascii ''--'' @ make_boundary P w @ nl @
                             ascii ''Content-Type: '' @ contentType a @ nl @
                             ascii ''Content-Disposition: attachment; filename='' @ dq @
                               filename a @ dq @ nl @
                             ascii ''Content-Transfer-Encoding: base64'' @ nl @ nl @
                             content a @ nl)
                     atts) @
           ascii ''--'' @ make_boundary P w @ ascii ''--''"
    unfolding multipart_head_text attachment_part_text by simp
  have b: "make_boundary P w =
           map of_char (''boundary_'' @
                        take 9 (drop 2 (Number_toString36 P (Math_random P (rand_calls w)))))"
    by (simp add: make_boundary_def ascii_def)
  have c: "nl = [10]" "dq = [34]" "\<forall>lit. ascii lit = map of_char lit"
    "\<forall>sep :: jstext. join sep [] = []"
    "\<forall>(sep :: jstext) x xs. join sep (x # xs) = x @ concat (map (\<lambda>z. sep @ z) xs)"
    "b64url_alphabet = ''ABCDEFGHIJKLMNOPQRSTUVWXYZabcdefghijklmnopqrstuvwxyz0123456789-_''"
    by (simp_all add: nl_def dq_def ascii_def join_def b64url_alphabet_def)
  have posts: "\<exists>raw. sent (snd (sendGmailEmail P w tok d)) =
                     sent w @
                     [\<lparr>url = ''https://gmail.googleapis.com/gmail/v1/users/me/messages/send'',
                       meth = ''POST'',
                       headers = [(''Authorization'', ''Bearer '' @ tok),
                                  (''Content-Type'', ''application/json'')],
                       payload = Json [(''raw'', raw)]\<rparr>] \<and>
                   set raw \<subseteq> set b64url_alphabet \<and>
                   CHR ''+'' \<notin> set raw \<and> CHR ''/'' \<notin> set raw \<and> CHR ''='' \<notin> set raw \<and>
                   base64url_decode raw = Some binary"
    if "unescape_encodeURIComponent P (fst (gmail_message P w d)) = Inr binary" for binary
    using sendGmailEmail_posts [OF that, of tok] url_btoa_alphabet [of binary]
      url_form_no_specials [of "btoa binary"] decode_url_btoa [of binary]
    by (intro exI [of _ "url_form (btoa binary)"]) simp
  have throws: "fst (sendGmailEmail P w tok d) = Inl e \<and>
            sent (snd (sendGmailEmail P w tok d)) = sent w"
    if "unescape_encodeURIComponent P (fst (gmail_message P w d)) = Inl e" for e
    using sendGmailEmail_throws [OF that, of tok] by simp
  from msg b c posts throws show ?thesis by blast
qed

lemma sample_mail_text:
  "fst (gmail_message sample_platform sample_world sample_mail) = ascii sample_text"
proof -
  have a: "attachments sample_mail = Some [att1, att2]" and n: "[att1, att2] \<noteq> []"
    by (simp_all add: sample_mail_def)
  have b: "make_boundary sample_platform sample_world = ascii ''boundary_4fzyo82mv''"
    by (simp add: make_boundary_def sample_platform_def ascii_def)
  show ?thesis
    unfolding gmail_message_multipart [OF a n] fst_conv multipart_head_text
      attachment_part_text b sample_text_def
    by (simp add: sample_mail_def att1_def att2_def join_def ascii_def nl_def dq_def)
qed

lemma sample_text_encoded: "url_form (btoa sample_text) = sample_raw"
  by code_simp

lemma sample_text_binary:
  "unescape_encodeURIComponent sample_platform (ascii sample_text) = Inr sample_text"
proof -
  have "list_all (\<lambda>c. c < 128) (ascii sample_text)"
    by code_simp
  moreover have "map char_of (ascii sample_text) = sample_text"
    by (simp add: ascii_def comp_def)
  ultimately show ?thesis
    by (simp add: sample_platform_def)
qed

theorem C7_gmail_multipart_and_base64url_witness:
  "attachments sample_mail = Some [att1, att2] \<and>
   make_boundary sample_platform sample_world = map of_char ''boundary_4fzyo82mv'' \<and>
   fst (gmail_message sample_platform sample_world sample_mail) = map of_char sample_text \<and>
   sent (snd (sendGmailEmail sample_platform sample_world ''tok'' sample_mail)) =
     [\<lparr>url = ''https://gmail.googleapis.com/gmail/v1/users/me/messages/send'',
       meth = ''POST'',
       headers = [(''Authorization'', ''Bearer tok''), (''Content-Type'', ''application/json'')],
       payload = Json [(''raw'', sample_raw)]\<rparr>] \<and>
   base64url_decode sample_raw = Some sample_text \<and>
   CHR ''='' \<notin> set sample_raw \<and>
   attachments surrogate_mail = Some [att1, att2] \<and>
   sent (snd (sendGmailEmail sample_platform sample_world ''tok'' surrogate_mail)) = [] \<and>
   fst (sendGmailEmail sample_platform sample_world ''tok'' surrogate_mail)
     = Inl (URIError ''URI malformed'')"
proof -
  have a: "attachments sample_mail = Some [att1, att2]" and n: "[att1, att2] \<noteq> []"
    and a': "attachments surrogate_mail = Some [att1, att2]"
    by (simp_all add: sample_mail_def surrogate_mail_def)
  note C = C7_gmail_multipart_and_base64url [OF a n, of sample_platform sample_world "''tok''"]
  note C' = C7_gmail_multipart_and_base64url [OF a' n, of sample_platform sample_world "''tok''"]
  have sw: "sent sample_world = []" by (simp add: sample_world_def)
  have b: "make_boundary sample_platform sample_world = map of_char ''boundary_4fzyo82mv''"
    using C by (simp add: sample_platform_def)
  have t: "fst (gmail_message sample_platform sample_world sample_mail) = map of_char sample_text"
    using sample_mail_text by (simp add: ascii_def)
  have bin: "unescape_encodeURIComponent sample_platform
          (fst (gmail_message sample_platform sample_world sample_mail)) = Inr sample_text"
    unfolding sample_mail_text by (rule sample_text_binary)
  have posted: "sent (snd (sendGmailEmail sample_platform sample_world ''tok'' sample_mail)) =
     [\<lparr>url = ''https://gmail.googleapis.com/gmail/v1/users/me/messages/send'',
       meth = ''POST'',
       headers = [(''Authorization'', ''Bearer tok''), (''Content-Type'', ''application/json'')],
       payload = Json [(''raw'', sample_raw)]\<rparr>]"
    using sendGmailEmail_posts [OF bin, of "''tok''"] sw
    by (simp add: sample_text_encoded)
  from C bin obtain raw where raw:
    "sent (snd (sendGmailEmail sample_platform sample_world ''tok'' sample_mail)) =
       sent sample_world @
       [\<lparr>url = ''https://gmail.googleapis.com/gmail/v1/users/me/messages/send'',
         meth = ''POST'',
         headers = [(''Authorization'', ''Bearer '' @ ''tok''),
                    (''Content-Type'', ''application/json'')],
         payload = Json [(''raw'', raw)]\<rparr>]"
    "CHR ''='' \<notin> set raw" "base64url_decode raw = Some sample_text"
    by blast
  from raw(1) posted sw have "raw = sample_raw" by simp
  with raw(2,3) have props: "base64url_decode sample_raw = Some sample_text"
    "CHR ''='' \<notin> set sample_raw"
    by simp_all
  have encg: "\<And>t. unescape_encodeURIComponent sample_platform t =
      (if list_all (\<lambda>c. c < 128) t then Inr (map char_of t)
       else Inl (URIError ''URI malformed''))"
    by (simp add: sample_platform_def)
  have "subject surrogate_mail = [55296]"
    by (simp add: surrogate_mail_def)
  with subject_in_message [OF a' n, of sample_platform sample_world]
  have "55296 \<in> set (fst (gmail_message sample_platform sample_world surrogate_mail))"
    by simp
  then have "\<not> list_all (\<lambda>c. c < 128)
                 (fst (gmail_message sample_platform sample_world surrogate_mail))"
    unfolding list_all_iff by (intro notI) (drule (1) bspec, simp)
  then have "unescape_encodeURIComponent sample_platform
          (fst (gmail_message sample_platform sample_world surrogate_mail))
        = Inl (URIError ''URI malformed'')"
    unfolding encg by simp
  with C' sw have bad:
    "sent (snd (sendGmailEmail sample_platform sample_world ''tok'' surrogate_mail)) = []"
    "fst (sendGmailEmail sample_platform sample_world ''tok'' surrogate_mail)
       = Inl (URIError ''URI malformed'')"
    by simp_all
  from a b t posted props a' bad show ?thesis by blast
qed

section \<open>The popup flow: messages from other origins\<close>

lemma step_foreign_message:
  "origin \<noteq> location_origin P \<Longrightarrow> step P pr c s (Message origin data) = s"
  by (simp add: step_def messageHandler_def)

lemma run_Nil: "run P pr c s [] = s"
  by (simp add: run_def)

lemma run_Cons: "run P pr c s (e # es) = run P pr c (step P pr c s e) es"
  by (simp add: run_def)

lemma run_append: "run P pr c s (xs @ ys) = run P pr c (run P pr c s xs) ys"
  by (simp add: run_def)

lemma run_foreign_messages:
  "\<forall>e \<in> set evs. \<exists>origin data. e = Message origin data \<and> origin \<noteq> location_origin P \<Longrightarrow>
     run P pr c s evs = s"
proof (induction evs)
  case Nil
  show ?case by (simp add: run_Nil)
next
  case (Cons e es)
  then obtain origin data where "e = Message origin data" "origin \<noteq> location_origin P"
    by auto
  with Cons show ?case
    by (simp add: run_Cons step_foreign_message)
qed

text \<open>
  Claim C6. A message event whose origin differs from the opener's own origin leaves the
  whole state of the flow as it was, whatever its payload and whether or not the listener
  is still registered: the promise is neither resolved nor rejected, the listener, the
  interval and the timeout stay as they are, no handler is started and storage is not
  written. The same holds for any sequence of such messages.
\<close>

theorem C6_foreign_origin_ignored:
  "(origin \<noteq> location_origin P \<longrightarrow> step P pr c s (Message origin data) = s) \<and>
   ((\<forall>e \<in> set evs. \<exists>origin data. e = Message origin data \<and> origin \<noteq> location_origin P) \<longrightarrow>
      run P pr c s evs = s)"
  using step_foreign_message [of origin P pr c s data] run_foreign_messages [of evs P pr c s]
  by blast

lemma sample_opened:
  "authenticateWithPopup sample_platform now w Google c True =
     \<lparr>fw = w\<lparr>rand_calls := rand_calls w + 128\<rparr>,
      oauth = \<lparr>mgr_provider = Google,
               pkceChallenge = Some (fst (generatePKCEChallenge sample_platform w))\<rparr>,
      listener = True, checkClosed = True, timeout_armed = True, popup_closed = False,
      promise = Pending, inflight = []\<rparr>"
proof -
  have s: "clientId sample_platform Google = ''g-client''"
    by (simp add: sample_platform_def or_empty_def)
  have "\<not> (clientId sample_platform (mgr_provider (createOAuthManager Google)) = [] \<or>
      str_includes (clientId sample_platform (mgr_provider (createOAuthManager Google))) ''your-'')"
    by (rule sample_configured)
  from getAuthUrl_configured [OF this, of now w]
  obtain u where "getAuthUrl sample_platform now w (createOAuthManager Google)
        (Some (c @ ''_'' @ Number_toString sample_platform now)) =
      (Inr u, (createOAuthManager Google)
                \<lparr>pkceChallenge := Some (fst (generatePKCEChallenge sample_platform w))\<rparr>,
       w\<lparr>rand_calls := rand_calls w + 128\<rparr>)"
    by blast
  then show ?thesis
    by (simp add: authenticateWithPopup_def createOAuthManager_def)
qed

theorem C6_foreign_origin_ignored_witness:
  "''https://evil.example'' \<noteq> location_origin sample_platform \<and>
   step sample_platform Google ''SG'' opened_flow
     (Message ''https://evil.example'' (Some success_msg)) = opened_flow \<and>
   run sample_platform Google ''SG'' opened_flow
     [Message ''https://evil.example'' (Some success_msg), Message ''https://evil.example'' None]
     = opened_flow \<and>
   promise opened_flow = Pending \<and> listener opened_flow \<and>
   step sample_platform Google ''SG'' opened_flow
     (Message ''https://app.example.org'' (Some success_msg)) \<noteq> opened_flow"
proof -
  have a: "''https://evil.example'' \<noteq> location_origin sample_platform"
    and o: "location_origin sample_platform = ''https://app.example.org''"
    by (simp_all add: sample_platform_def)
  have b: "promise opened_flow = Pending" "listener opened_flow" "inflight opened_flow = []"
    by (simp_all add: opened_flow_def sample_opened)
  have "inflight (step sample_platform Google ''SG'' opened_flow
     (Message ''https://app.example.org'' (Some success_msg))) = [''code-1'']"
    by (simp add: step_def messageHandler_def b o success_msg_def truthy_def)
  with b(3) have d: "step sample_platform Google ''SG'' opened_flow
     (Message ''https://app.example.org'' (Some success_msg)) \<noteq> opened_flow"
    by auto
  from a b d
    C6_foreign_origin_ignored [of "''https://evil.example''" sample_platform Google "''SG''"
      opened_flow "Some success_msg"
      "[Message ''https://evil.example'' (Some success_msg), Message ''https://evil.example'' None]"]
  show ?thesis by simp
qed

section \<open>The popup flow: cancellation\<close>

lemma exchange_storage: "storage (snd (exchangeCodeForTokens P now w m code)) = storage w"
  by (simp add: exchangeCodeForTokens_def Let_def split: option.split)

lemma getUserInfo_storage: "storage (snd (getUserInfo P w m tok)) = storage w"
  by (simp add: getUserInfo_def Let_def)

lemma settle_fields:
  "fw (settle r s) = fw s" "listener (settle r s) = listener s"
  "inflight (settle r s) = inflight s" "checkClosed (settle r s) = checkClosed s"
  "promise (settle r s) = (if promise s = Pending then r else promise s)"
  by (simp_all add: settle_def)

lemma handler_rest_storage:
  assumes "storage (fw (handler_rest P pr c now s code)) \<noteq> storage (fw s)"
  shows "\<exists>tokens w1 userInfo w2.
           exchangeCodeForTokens P now (fw s) (oauth s) code = (Inr tokens, w1) \<and>
           getUserInfo P w1 (oauth s) (accessToken tokens) = (Inr userInfo, w2) \<and>
           storage (fw (handler_rest P pr c now s code)) =
             storeUserInfo P (storeAuthTokens P (storage (fw s)) c (provider_str pr) tokens)
               c (provider_str pr) userInfo"
proof -
  obtain r w1 where x: "exchangeCodeForTokens P now (fw s) (oauth s) code = (r, w1)"
    by (cases "exchangeCodeForTokens P now (fw s) (oauth s) code")
  with exchange_storage [of P now "fw s" "oauth s" code] have w1: "storage w1 = storage (fw s)"
    by simp
  show ?thesis
  proof (cases r)
    case (Inl e)
    with x w1 assms show ?thesis
      by (simp add: handler_rest_def settle_fields)
  next
    case (Inr tokens)
    obtain r2 w2 where u: "getUserInfo P w1 (oauth s) (accessToken tokens) = (r2, w2)"
      by (cases "getUserInfo P w1 (oauth s) (accessToken tokens)")
    with getUserInfo_storage [of P w1 "oauth s" "accessToken tokens"] w1
    have w2: "storage w2 = storage (fw s)" by simp
    show ?thesis
    proof (cases r2)
      case (Inl e)
      with x Inr u w2 assms show ?thesis
        by (simp add: handler_rest_def settle_fields)
    next
      case (Inr userInfo)
      with x \<open>r = Inr tokens\<close> u w2 show ?thesis
        by (simp add: handler_rest_def settle_fields)
    qed
  qed
qed

lemma storage_written_only_on_success:
  assumes "storage (fw (step P pr c s ev)) \<noteq> storage (fw s)"
  shows "\<exists>i now tokens w1 userInfo w2.
           ev = HandlerCompletes i now \<and> i < length (inflight s) \<and>
           exchangeCodeForTokens P now (fw s) (oauth s) (inflight s ! i) = (Inr tokens, w1) \<and>
           getUserInfo P w1 (oauth s) (accessToken tokens) = (Inr userInfo, w2) \<and>
           storage (fw (step P pr c s ev)) =
             storeUserInfo P (storeAuthTokens P (storage (fw s)) c (provider_str pr) tokens)
               c (provider_str pr) userInfo"
proof (cases ev)
  case (Message origin data)
  with assms show ?thesis
    by (simp add: step_def messageHandler_def settle_fields split: if_splits option.splits)
next
  case PopupClosedByUser
  with assms show ?thesis by (simp add: step_def)
next
  case Tick
  with assms show ?thesis by (simp add: step_def settle_fields split: if_splits)
next
  case Timeout
  with assms show ?thesis by (simp add: step_def settle_fields split: if_splits)
next
  case (HandlerCompletes i now)
  show ?thesis
  proof (cases "i < length (inflight s)")
    case False
    with HandlerCompletes assms show ?thesis by (simp add: step_def)
  next
    case True
    define s0 where "s0 = s\<lparr>inflight := take i (inflight s) @ drop (Suc i) (inflight s)\<rparr>"
    have st: "step P pr c s ev = handler_rest P pr c now s0 (inflight s ! i)"
      using True HandlerCompletes by (simp add: step_def s0_def)
    have same: "fw s0 = fw s" "oauth s0 = oauth s"
      by (simp_all add: s0_def)
    from assms st same have "storage (fw (handler_rest P pr c now s0 (inflight s ! i)))
        \<noteq> storage (fw s0)"
      by simp
    from handler_rest_storage [OF this] st same True HandlerCompletes show ?thesis
      by auto
  qed
qed

lemma settled_step:
  assumes "\<not> listener s" "inflight s = []" "promise s \<noteq> Pending"
  shows "\<not> listener (step P pr c s ev) \<and> inflight (step P pr c s ev) = [] \<and>
         promise (step P pr c s ev) = promise s \<and> fw (step P pr c s ev) = fw s"
  using assms by (cases ev) (simp_all add: step_def settle_def)

lemma settled_run:
  assumes "\<not> listener s" "inflight s = []" "promise s \<noteq> Pending"
  shows "\<not> listener (run P pr c s evs) \<and> promise (run P pr c s evs) = promise s \<and>
         fw (run P pr c s evs) = fw s"
  using assms
proof (induction evs arbitrary: s)
  case Nil
  then show ?case by (simp add: run_Nil)
next
  case (Cons e es)
  from settled_step [OF Cons.prems, of P pr c e] Cons.prems(3)
  have "\<not> listener (step P pr c s e)" "inflight (step P pr c s e) = []"
    "promise (step P pr c s e) \<noteq> Pending" and
    eq: "promise (step P pr c s e) = promise s" "fw (step P pr c s e) = fw s"
    by simp_all
  from Cons.IH [OF this(1-3)] eq show ?case
    by (simp add: run_Cons)
qed

lemma ignored_step: "ignored_message P e \<Longrightarrow> step P pr c s e = s"
  by (cases e) (auto simp add: step_def messageHandler_def split: option.splits)

lemma open_run:
  "\<not> popup_closed s \<Longrightarrow> \<forall>e \<in> set evs. e = Tick \<or> ignored_message P e \<Longrightarrow>
     run P pr c s evs = s"
proof (induction evs)
  case Nil
  show ?case by (simp add: run_Nil)
next
  case (Cons e es)
  from Cons.prems(2) have "e = Tick \<or> ignored_message P e" by simp
  then have "step P pr c s e = s"
  proof
    assume "e = Tick"
    with Cons.prems(1) show ?thesis by (simp add: step_def)
  next
    assume "ignored_message P e"
    then show ?thesis by (rule ignored_step)
  qed
  with Cons show ?case by (simp add: run_Cons)
qed

lemma closed_step:
  assumes "popup_closed s" "e = Timeout \<or> e = PopupClosedByUser \<or> ignored_message P e"
  shows "\<exists>b. step P pr c s e = s\<lparr>timeout_armed := b\<rparr>"
proof -
  have id: "s = s\<lparr>timeout_armed := timeout_armed s\<rparr>" by simp
  from assms(2) consider "e = Timeout" | "e = PopupClosedByUser" | "ignored_message P e"
    by blast
  then show ?thesis
  proof cases
    case 1
    with assms(1) have "step P pr c s e = s\<lparr>timeout_armed := False\<rparr> \<or> step P pr c s e = s"
      by (simp add: step_def)
    with id show ?thesis by metis
  next
    case 2
    with assms(1) have "step P pr c s e = s" by (simp add: step_def)
    with id show ?thesis by metis
  next
    case 3
    then have "step P pr c s e = s" by (rule ignored_step)
    with id show ?thesis by metis
  qed
qed

lemma closed_run:
  "popup_closed s \<Longrightarrow>
   \<forall>e \<in> set evs. e = Timeout \<or> e = PopupClosedByUser \<or> ignored_message P e \<Longrightarrow>
     \<exists>b. run P pr c s evs = s\<lparr>timeout_armed := b\<rparr>"
proof (induction evs arbitrary: s)
  case Nil
  have "s = s\<lparr>timeout_armed := timeout_armed s\<rparr>" by simp
  then show ?case unfolding run_Nil by (rule exI)
next
  case (Cons e es)
  from closed_step [OF Cons.prems(1), of e P pr c] Cons.prems(2)
  obtain b0 where b0: "step P pr c s e = s\<lparr>timeout_armed := b0\<rparr>" by auto
  from Cons.prems have "popup_closed (s\<lparr>timeout_armed := b0\<rparr>)"
    "\<forall>e \<in> set es. e = Timeout \<or> e = PopupClosedByUser \<or> ignored_message P e"
    by simp_all
  from Cons.IH [OF this] obtain b where
    "run P pr c (s\<lparr>timeout_armed := b0\<rparr>) es = s\<lparr>timeout_armed := b0, timeout_armed := b\<rparr>"
    by auto
  with b0 have "run P pr c s (e # es) = s\<lparr>timeout_armed := b\<rparr>"
    by (simp add: run_Cons)
  then show ?case by (rule exI)
qed

lemma getAuthUrl_storage: "storage (snd (snd (getAuthUrl P now w m st))) = storage w"
proof (cases "clientId P (mgr_provider m) = [] \<or> str_includes (clientId P (mgr_provider m)) ''your-''")
  case True
  then show ?thesis by (simp add: getAuthUrl_unconfigured)
next
  case False
  from getAuthUrl_configured [OF this, of now w st] show ?thesis by auto
qed

lemma opened_state:
  assumes "promise (authenticateWithPopup P t0 w pr c popup_opens) = Pending"
  shows "\<exists>w' m. authenticateWithPopup P t0 w pr c popup_opens =
           \<lparr>fw = w', oauth = m, listener = True, checkClosed = True, timeout_armed = True,
            popup_closed = False, promise = Pending, inflight = []\<rparr> \<and> storage w' = storage w"
proof -
  obtain r m w' where g: "getAuthUrl P t0 w (createOAuthManager pr)
      (Some (c @ ''_'' @ Number_toString P t0)) = (r, m, w')"
    by (cases "getAuthUrl P t0 w (createOAuthManager pr)
      (Some (c @ ''_'' @ Number_toString P t0))") auto
  with getAuthUrl_storage [of P t0 w "createOAuthManager pr"
      "Some (c @ ''_'' @ Number_toString P t0)"]
  have "storage w' = storage w" by simp
  with g assms show ?thesis
    by (cases r) (simp_all add: authenticateWithPopup_def idle_def split: if_splits)
qed

lemma cancel_run:
  assumes "promise (authenticateWithPopup P t0 w pr c popup_opens) = Pending"
    and "\<forall>e \<in> set evs1. e = Tick \<or> ignored_message P e"
    and "\<forall>e \<in> set evs2. e = Timeout \<or> e = PopupClosedByUser \<or> ignored_message P e"
  shows "promise (run P pr c (authenticateWithPopup P t0 w pr c popup_opens)
                    (evs1 @ [PopupClosedByUser] @ evs2 @ [Tick] @ evs3))
           = Rejected (Error ''Authentication cancelled'')"
    and "\<not> listener (run P pr c (authenticateWithPopup P t0 w pr c popup_opens)
                    (evs1 @ [PopupClosedByUser] @ evs2 @ [Tick] @ evs3))"
    and "storage (fw (run P pr c (authenticateWithPopup P t0 w pr c popup_opens)
                    (evs1 @ [PopupClosedByUser] @ evs2 @ [Tick] @ evs3))) = storage w"
proof -
  define s0 where "s0 = authenticateWithPopup P t0 w pr c popup_opens"
  from opened_state [OF assms(1)] obtain w' m where
    s0: "s0 = \<lparr>fw = w', oauth = m, listener = True, checkClosed = True, timeout_armed = True,
            popup_closed = False, promise = Pending, inflight = []\<rparr>"
    and w': "storage w' = storage w"
    unfolding s0_def by blast
  have 1: "run P pr c s0 evs1 = s0"
    using open_run [OF _ assms(2), of s0 pr c] by (simp add: s0)
  define s1 where "s1 = s0\<lparr>popup_closed := True\<rparr>"
  have 2: "step P pr c s0 PopupClosedByUser = s1"
    by (simp add: step_def s1_def)
  from closed_run [OF _ assms(3), of s1 pr c] obtain b where
    3: "run P pr c s1 evs2 = s1\<lparr>timeout_armed := b\<rparr>"
    by (auto simp add: s1_def)
  define s2 where "s2 = step P pr c (s1\<lparr>timeout_armed := b\<rparr>) Tick"
  have s2: "promise s2 = Rejected (Error ''Authentication cancelled'')" "\<not> listener s2"
    "inflight s2 = []" "fw s2 = w'"
    by (simp_all add: s2_def s1_def s0 step_def settle_def)
  have "run P pr c s0 (evs1 @ [PopupClosedByUser] @ evs2 @ [Tick] @ evs3) = run P pr c s2 evs3"
    by (simp add: run_append run_Cons run_Nil 1 2 3 s2_def)
  moreover from settled_run [OF s2(2,3), of P pr c evs3] s2(1,4)
  have "\<not> listener (run P pr c s2 evs3)"
    "promise (run P pr c s2 evs3) = Rejected (Error ''Authentication cancelled'')"
    "fw (run P pr c s2 evs3) = w'"
    by simp_all
  ultimately show
    "promise (run P pr c (authenticateWithPopup P t0 w pr c popup_opens)
                    (evs1 @ [PopupClosedByUser] @ evs2 @ [Tick] @ evs3))
           = Rejected (Error ''Authentication cancelled'')"
    "\<not> listener (run P pr c (authenticateWithPopup P t0 w pr c popup_opens)
                    (evs1 @ [PopupClosedByUser] @ evs2 @ [Tick] @ evs3))"
    "storage (fw (run P pr c (authenticateWithPopup P t0 w pr c popup_opens)
                    (evs1 @ [PopupClosedByUser] @ evs2 @ [Tick] @ evs3))) = storage w"
    using w' by (simp_all add: s0_def)
qed

lemma sample_net:
  "fetch sample_platform n req = Inr \<lparr>status = 200, statusText = ''OK'', bodyText = ''{}''\<rparr>"
  "response_json_tokens sample_platform x
     = Inr \<lparr>access_token = ''B'', refresh_token = None, expires_in = 3600\<rparr>"
  "response_json_userinfo sample_platform x
     = Inr \<lparr>r_id = ''7'', r_email = ''u@example.org'', r_name = ''U'', r_picture = None,
            r_mail = None, r_userPrincipalName = ''u@example.org'', r_displayName = ''U'',
            r_photo_value = None\<rparr>"
  "JSON_stringify_tokens sample_platform t = ''tok:'' @ accessToken t"
  "JSON_stringify_userinfo sample_platform u = ''U''"
  "location_origin sample_platform = ''https://app.example.org''"
  "JSON_parse_tokens sample_platform ''tok:B''
     = Inr (Some \<lparr>accessToken = ''B'', refreshToken = None, expiresIn = 3600,
                   expiresAt = 3607000\<rparr>)"
  by (simp_all add: sample_platform_def)

lemma sample_handler_rest:
  assumes "pkceChallenge (oauth s) = Some ch" "mgr_provider (oauth s) = Google"
  shows "storage (fw (handler_rest sample_platform Google ''SG'' now s code)) =
           (storage (fw s))(auth_key ''SG'' ''google'' \<mapsto> ''tok:B'',
                            userinfo_key ''SG'' ''google'' \<mapsto> ''U'')"
    and "promise s \<noteq> Pending \<Longrightarrow>
           promise (handler_rest sample_platform Google ''SG'' now s code) = promise s"
    and "\<not> listener (handler_rest sample_platform Google ''SG'' now s code)"
  using assms
  by (simp_all add: handler_rest_def exchange_with_challenge getUserInfo_def sample_net
        exchange_response_def ok_def try_catch_def settle_def storeAuthTokens_def
        storeUserInfo_def Let_def)

lemma late_message_run:
  "promise (run sample_platform Google ''SG'' opened_flow late_message)
     = Rejected (Error ''Authentication cancelled'')"
  "\<not> listener (run sample_platform Google ''SG'' opened_flow late_message)"
  "storage (fw (run sample_platform Google ''SG'' opened_flow late_message))
     = [auth_key ''SG'' ''google'' \<mapsto> ''tok:B'', userinfo_key ''SG'' ''google'' \<mapsto> ''U'']"
proof -
  define s3 where "s3 = run sample_platform Google ''SG'' opened_flow
    [PopupClosedByUser, Message ''https://app.example.org'' (Some success_msg), Tick]"
  have s3: "promise s3 = Rejected (Error ''Authentication cancelled'')" "\<not> listener s3"
    "inflight s3 = [''code-1'']" "storage (fw s3) = Map.empty"
    "pkceChallenge (oauth s3) = Some (fst (generatePKCEChallenge sample_platform fresh_world))"
    "mgr_provider (oauth s3) = Google"
    by (simp_all add: s3_def run_Cons run_Nil step_def messageHandler_def opened_flow_def
          sample_opened sample_net success_msg_def truthy_def settle_def fresh_world_def)
  define s3' where "s3' = s3\<lparr>inflight := take 0 (inflight s3) @ drop (Suc 0) (inflight s3)\<rparr>"
  have r: "run sample_platform Google ''SG'' opened_flow late_message =
             handler_rest sample_platform Google ''SG'' 7000 s3' ''code-1''"
    using s3(3) unfolding late_message_def s3'_def s3_def
    by (simp add: run_def step_def)
  have s3': "pkceChallenge (oauth s3') = Some (fst (generatePKCEChallenge sample_platform fresh_world))"
    "mgr_provider (oauth s3') = Google" "promise s3' = Rejected (Error ''Authentication cancelled'')"
    "storage (fw s3') = Map.empty"
    using s3 by (simp_all add: s3'_def)
  show "promise (run sample_platform Google ''SG'' opened_flow late_message)
     = Rejected (Error ''Authentication cancelled'')"
    unfolding r using sample_handler_rest(2) [OF s3'(1,2), of 7000 "''code-1''"] s3'(3) by simp
  show "\<not> listener (run sample_platform Google ''SG'' opened_flow late_message)"
    unfolding r using sample_handler_rest(3) [OF s3'(1,2)] by simp
  show "storage (fw (run sample_platform Google ''SG'' opened_flow late_message))
     = [auth_key ''SG'' ''google'' \<mapsto> ''tok:B'', userinfo_key ''SG'' ''google'' \<mapsto> ''U'']"
    unfolding r using sample_handler_rest(1) [OF s3'(1,2), of 7000 "''code-1''"] s3'(4) by simp
qed


text \<open>
  Claim C5, as the code has it. Take a run of \<^verbatim>\<open>authenticateWithPopup\<close> whose popup opened.
  Suppose that only ignored messages and polls arrive while the popup is open, that the
  user then closes it, and that until the next poll again nothing but ignored messages
  (and possibly the timeout, which does nothing on a closed popup) arrives. Then that poll
  rejects the promise with "Authentication cancelled" and removes the listener, and
  whatever events follow, the promise stays so and storage stays exactly what it was when
  the run began: nothing is written. Hence \<^verbatim>\<open>getValidAccessToken\<close> for the identity returns
  \<^verbatim>\<open>null\<close> afterwards whenever the store held no tokens for it before the run. In every
  run, a step changes storage only if it is the completion of a listener invocation whose
  token exchange and user-info request both succeeded.
\<close>

theorem C5_cancel_writes_nothing:
  assumes "promise (authenticateWithPopup P t0 w pr c popup_opens) = Pending"
    and "\<forall>e \<in> set evs1. e = Tick \<or> ignored_message P e"
    and "\<forall>e \<in> set evs2. e = Timeout \<or> e = PopupClosedByUser \<or> ignored_message P e"
  shows "promise (run P pr c (authenticateWithPopup P t0 w pr c popup_opens)
                    (evs1 @ [PopupClosedByUser] @ evs2 @ [Tick] @ evs3))
           = Rejected (Error ''Authentication cancelled'') \<and>
         \<not> listener (run P pr c (authenticateWithPopup P t0 w pr c popup_opens)
                    (evs1 @ [PopupClosedByUser] @ evs2 @ [Tick] @ evs3)) \<and>
         storage (fw (run P pr c (authenticateWithPopup P t0 w pr c popup_opens)
                    (evs1 @ [PopupClosedByUser] @ evs2 @ [Tick] @ evs3))) = storage w \<and>
         (getStoredAuthTokens P (storage w) c (provider_str pr) = Inr None \<longrightarrow>
            fst (getValidAccessToken P now now'
                   (fw (run P pr c (authenticateWithPopup P t0 w pr c popup_opens)
                          (evs1 @ [PopupClosedByUser] @ evs2 @ [Tick] @ evs3))) c pr)
              = Inr None) \<and>
         (storage (fw (step P pr c s ev)) \<noteq> storage (fw s) \<longrightarrow>
            (\<exists>i t tokens w1 userInfo w2.
               ev = HandlerCompletes i t \<and> i < length (inflight s) \<and>
               exchangeCodeForTokens P t (fw s) (oauth s) (inflight s ! i) = (Inr tokens, w1) \<and>
               getUserInfo P w1 (oauth s) (accessToken tokens) = (Inr userInfo, w2)))"
proof -
  note r = cancel_run [OF assms, of evs3]
  have "fst (getValidAccessToken P now now'
                   (fw (run P pr c (authenticateWithPopup P t0 w pr c popup_opens)
                          (evs1 @ [PopupClosedByUser] @ evs2 @ [Tick] @ evs3))) c pr)
              = Inr None"
    if "getStoredAuthTokens P (storage w) c (provider_str pr) = Inr None"
    using that r(3) by (simp add: gvat_absent)
  moreover have "\<exists>i t tokens w1 userInfo w2.
               ev = HandlerCompletes i t \<and> i < length (inflight s) \<and>
               exchangeCodeForTokens P t (fw s) (oauth s) (inflight s ! i) = (Inr tokens, w1) \<and>
               getUserInfo P w1 (oauth s) (accessToken tokens) = (Inr userInfo, w2)"
    if "storage (fw (step P pr c s ev)) \<noteq> storage (fw s)"
    using storage_written_only_on_success [OF that] by blast
  ultimately show ?thesis
    using r by blast
qed

theorem C5_cancel_writes_nothing_witness:
  "promise opened_flow = Pending \<and>
   promise (run sample_platform Google ''SG'' opened_flow quiet_close)
     = Rejected (Error ''Authentication cancelled'') \<and>
   \<not> listener (run sample_platform Google ''SG'' opened_flow quiet_close) \<and>
   storage (fw (run sample_platform Google ''SG'' opened_flow quiet_close)) = Map.empty \<and>
   fst (getValidAccessToken sample_platform 8000 8000
          (fw (run sample_platform Google ''SG'' opened_flow quiet_close)) ''SG'' Google)
     = Inr None \<and>
   storage (fw (step sample_platform Google ''SG'' awaiting_flow (HandlerCompletes 0 7000)))
     \<noteq> storage (fw awaiting_flow)"
proof -
  have p: "promise (authenticateWithPopup sample_platform 0 fresh_world Google ''SG'' True)
             = Pending"
    by (simp add: sample_opened)
  have e1: "\<forall>e \<in> set [Message ''https://evil.example'' (Some success_msg), Tick].
              e = Tick \<or> ignored_message sample_platform e"
    by (simp add: sample_net)
  have e2: "\<forall>e \<in> set [Timeout].
              e = Timeout \<or> e = PopupClosedByUser \<or> ignored_message sample_platform e"
    by simp
  have none: "getStoredAuthTokens sample_platform (storage fresh_world) ''SG''
                (provider_str Google) = Inr None"
    by (simp add: getStoredAuthTokens_def fresh_world_def)
  have aw: "inflight awaiting_flow = [''code-1'']" "storage (fw awaiting_flow) = Map.empty"
    "pkceChallenge (oauth awaiting_flow)
       = Some (fst (generatePKCEChallenge sample_platform fresh_world))"
    "mgr_provider (oauth awaiting_flow) = Google"
    by (simp_all add: awaiting_flow_def step_def messageHandler_def opened_flow_def
          sample_opened sample_net success_msg_def truthy_def fresh_world_def)
  have st: "step sample_platform Google ''SG'' awaiting_flow (HandlerCompletes 0 7000) =
      handler_rest sample_platform Google ''SG'' 7000
        (awaiting_flow\<lparr>inflight := take 0 (inflight awaiting_flow) @
                                     drop (Suc 0) (inflight awaiting_flow)\<rparr>) ''code-1''"
    using aw(1) by (simp add: step_def)
  have "storage (fw (step sample_platform Google ''SG'' awaiting_flow (HandlerCompletes 0 7000)))
      (auth_key ''SG'' ''google'') = Some ''tok:B''"
    unfolding st
    using sample_handler_rest(1) [of "awaiting_flow\<lparr>inflight := take 0 (inflight awaiting_flow) @
                                     drop (Suc 0) (inflight awaiting_flow)\<rparr>" _ 7000 "''code-1''"] aw
    by (simp add: auth_key_def userinfo_key_def)
  with aw(2) have ch: "storage (fw (step sample_platform Google ''SG'' awaiting_flow
      (HandlerCompletes 0 7000))) \<noteq> storage (fw awaiting_flow)"
    by auto
  note C = C5_cancel_writes_nothing [OF p e1 e2,
      of "[Message ''https://app.example.org'' (Some success_msg), HandlerCompletes 0 7000]"
         8000 8000 awaiting_flow "HandlerCompletes 0 7000"]
  have q: "[Message ''https://evil.example'' (Some success_msg), Tick] @ [PopupClosedByUser] @
           [Timeout] @ [Tick] @
           [Message ''https://app.example.org'' (Some success_msg), HandlerCompletes 0 7000]
           = quiet_close"
    by (simp add: quiet_close_def)
  have f: "storage fresh_world = Map.empty"
    by (simp add: fresh_world_def)
  from C none ch p show ?thesis
    unfolding q opened_flow_def [symmetric] f by auto
qed

text \<open>
  The claim as stated fails in two ways. First run: the store is empty, the user closes
  the popup, and a success message from the opener's own origin is delivered after that
  but before the next poll. The poll rejects the promise with "Authentication cancelled"
  and removes the listener, yet the listener invocation already started goes on, and
  when its two requests succeed it writes the tokens and the user info:
  \<^verbatim>\<open>getValidAccessToken\<close> then returns the new access token. Second run: valid tokens are
  already stored for the identity, the user closes the popup and the poll cancels;
  nothing is written, and \<^verbatim>\<open>getValidAccessToken\<close> returns the stored access token, not
  \<^verbatim>\<open>null\<close>.
\<close>

theorem C5_cancelled_yet_stored_counterexample:
  "storage (fw opened_flow) (auth_key ''SG'' ''google'') = None \<and>
   promise (run sample_platform Google ''SG'' opened_flow late_message)
     = Rejected (Error ''Authentication cancelled'') \<and>
   \<not> listener (run sample_platform Google ''SG'' opened_flow late_message) \<and>
   storage (fw (run sample_platform Google ''SG'' opened_flow late_message))
     (auth_key ''SG'' ''google'') = Some ''tok:B'' \<and>
   storage (fw (run sample_platform Google ''SG'' opened_flow late_message))
     (userinfo_key ''SG'' ''google'') = Some ''U'' \<and>
   fst (getValidAccessToken sample_platform 8000 8000
          (fw (run sample_platform Google ''SG'' opened_flow late_message)) ''SG'' Google)
     = Inr (Some ''B'') \<and>
   promise (run sample_platform Google ''SG'' reconnect_flow [PopupClosedByUser, Tick])
     = Rejected (Error ''Authentication cancelled'') \<and>
   storage (fw (run sample_platform Google ''SG'' reconnect_flow [PopupClosedByUser, Tick]))
     = storage sample_world \<and>
   fst (getValidAccessToken sample_platform 1000 1000
          (fw (run sample_platform Google ''SG'' reconnect_flow [PopupClosedByUser, Tick]))
          ''SG'' Google)
     = Inr (Some ''A'')"
proof -
  have a: "storage (fw opened_flow) (auth_key ''SG'' ''google'') = None"
    by (simp add: opened_flow_def sample_opened fresh_world_def)
  note l = late_message_run
  have b: "storage (fw (run sample_platform Google ''SG'' opened_flow late_message))
     (auth_key ''SG'' ''google'') = Some ''tok:B''"
    "storage (fw (run sample_platform Google ''SG'' opened_flow late_message))
     (userinfo_key ''SG'' ''google'') = Some ''U''"
    unfolding l(3) by (simp_all add: auth_key_def userinfo_key_def)
  have "getStoredAuthTokens sample_platform
          (storage (fw (run sample_platform Google ''SG'' opened_flow late_message)))
          ''SG'' (provider_str Google)
        = Inr (Some \<lparr>accessToken = ''B'', refreshToken = None, expiresIn = 3600,
                      expiresAt = 3607000\<rparr>)"
    using b(1) by (simp add: getStoredAuthTokens_def sample_net try_catch_def)
  then have c: "fst (getValidAccessToken sample_platform 8000 8000
          (fw (run sample_platform Google ''SG'' opened_flow late_message)) ''SG'' Google)
     = Inr (Some ''B'')"
    by (simp add: gvat_valid isTokenExpired_def)
  have d: "promise (run sample_platform Google ''SG'' reconnect_flow [PopupClosedByUser, Tick])
     = Rejected (Error ''Authentication cancelled'')"
    "fw (run sample_platform Google ''SG'' reconnect_flow [PopupClosedByUser, Tick])
     = sample_world\<lparr>rand_calls := rand_calls sample_world + 128\<rparr>"
    by (simp_all add: reconnect_flow_def sample_opened run_Cons run_Nil step_def settle_def)
  have "getStoredAuthTokens sample_platform
          (storage (fw (run sample_platform Google ''SG'' reconnect_flow
             [PopupClosedByUser, Tick]))) ''SG'' (provider_str Google)
        = Inr (Some sample_tokens)"
    unfolding d(2) using sample_reads(2) by simp
  then have e: "fst (getValidAccessToken sample_platform 1000 1000
          (fw (run sample_platform Google ''SG'' reconnect_flow [PopupClosedByUser, Tick]))
          ''SG'' Google) = Inr (Some ''A'')"
    by (simp add: gvat_valid isTokenExpired_def sample_tokens_def)
  from a l(1,2) b c d e show ?thesis by simp
qed

end
